theory Spec2Isabelle
  imports Main "HOL-Library.Sublist"
begin

section \<open>Python values\<close>

text \<open>
  The script \<^verbatim>\<open>etl_connector.py\<close> is embedded function by function. A Python \<^verbatim>\<open>str\<close> is a
  \<^typ>\<open>string\<close>, a Python \<^verbatim>\<open>int\<close> is an \<^typ>\<open>int\<close>, a \<^verbatim>\<open>dict\<close> is an association list in
  insertion order, and a raised exception is the \<open>Inl\<close> side of a sum.
\<close>

datatype json =
    JNull
  | JBool bool
  | JInt int
  | JFloat string  \<comment> \<open>a non-integer number, carried by its literal; no function here inspects it\<close>
  | JStr string
  | JArr "json list"
  | JObj "(string \<times> json) list"

type_synonym pydict = "(string \<times> json) list"

datatype exn =
    RequestException string  \<comment> \<open>transport failure of \<^verbatim>\<open>requests.get\<close> (connection, timeout, ...)\<close>
  | HTTPError int            \<comment> \<open>raised by \<^verbatim>\<open>raise_for_status\<close>; a \<^verbatim>\<open>RequestException\<close>\<close>
  | JSONDecodeError          \<comment> \<open>raised by \<^verbatim>\<open>resp.json()\<close>\<close>
  | RuntimeError string
  | ValueError string
  | OverflowError string
  | AttributeError string
  | OSError string           \<comment> \<open>raised by \<^verbatim>\<open>open\<close>\<close>
  | PyMongoError string

subsection \<open>Strings\<close>

text \<open>\<^verbatim>\<open>str.isspace\<close> on the code points below 256.\<close>

definition isspace :: "char \<Rightarrow> bool" where
  "isspace c =
     (let n = (of_char c :: nat)
      in (9 \<le> n \<and> n \<le> 13) \<or> (28 \<le> n \<and> n \<le> 32) \<or> n = 133 \<or> n = 160)"

text \<open>\<^verbatim>\<open>s.strip()\<close>: whitespace removed at both ends.\<close>

definition strip :: "string \<Rightarrow> string" where
  "strip s = rev (dropWhile isspace (rev (dropWhile isspace s)))"

text \<open>\<^verbatim>\<open>s.split(c)\<close> for a one-character separator: never empty, \<^verbatim>\<open>"".split(",") == [""]\<close>.\<close>

fun split_on :: "char \<Rightarrow> string \<Rightarrow> string list" where
  "split_on c [] = [[]]"
| "split_on c (x # xs) =
     (if x = c then [] # split_on c xs
      else (case split_on c xs of
              [] \<Rightarrow> [[x]]
            | w # ws \<Rightarrow> (x # w) # ws))"

text \<open>\<^verbatim>\<open>s.startswith(p)\<close>.\<close>

definition startswith :: "string \<Rightarrow> string \<Rightarrow> bool" where
  "startswith s p = (take (length p) s = p)"

text \<open>
  Iterating over a file opened in text mode: universal newlines (\<^verbatim>\<open>\r\n\<close> and \<^verbatim>\<open>\r\<close> are read
  as \<^verbatim>\<open>\n\<close>), then one line per \<^verbatim>\<open>\n\<close>, each line keeping its terminator; a last line
  without terminator is a line, an empty rest is not.
\<close>

fun universal_newlines :: "string \<Rightarrow> string" where
  "universal_newlines [] = []"
| "universal_newlines [c] = (if c = CHR 0x0D then [CHR 0x0A] else [c])"
| "universal_newlines (c # d # cs) =
     (if c = CHR 0x0D \<and> d = CHR 0x0A then CHR 0x0A # universal_newlines cs
      else if c = CHR 0x0D then CHR 0x0A # universal_newlines (d # cs)
      else c # universal_newlines (d # cs))"

fun keepends_lines :: "string \<Rightarrow> string list" where
  "keepends_lines [] = []"
| "keepends_lines (c # cs) =
     (if c = CHR 0x0A then [c] # keepends_lines cs
      else (case keepends_lines cs of
              [] \<Rightarrow> [[c]]
            | l # ls \<Rightarrow> (c # l) # ls))"

definition file_lines :: "string \<Rightarrow> string list" where
  "file_lines text = keepends_lines (universal_newlines text)"

section \<open>Input Collector: \<^verbatim>\<open>iter_ips_from_args\<close>\<close>

text \<open>The comprehension \<^verbatim>\<open>[x.strip() for x in ips_arg.split(",") if x.strip()]\<close>.\<close>

definition inline_ips :: "string \<Rightarrow> string list" where
  "inline_ips ips_arg = map strip (filter (\<lambda>x. strip x \<noteq> []) (split_on CHR '','' ips_arg))"

text \<open>The loop over the lines of the file, appending to \<^verbatim>\<open>ips\<close>.\<close>

definition read_line :: "string \<Rightarrow> string list \<Rightarrow> string list" where
  "read_line line ips =
     (let s = strip line
      in if s \<noteq> [] \<and> \<not> startswith s ''#'' then ips @ [s] else ips)"

definition read_ips_file :: "string \<Rightarrow> string list \<Rightarrow> string list" where
  "read_ips_file text ips = fold read_line (file_lines text) ips"

text \<open>The de-duplication loop: \<^verbatim>\<open>ordered\<close> and \<^verbatim>\<open>seen\<close> are the loop's two variables.\<close>

definition dedup_step :: "string \<Rightarrow> string list \<times> string set \<Rightarrow> string list \<times> string set" where
  "dedup_step ip st =
     (case st of (ordered, seen) \<Rightarrow>
        if ip \<notin> seen then (ordered @ [ip], insert ip seen) else (ordered, seen))"

definition dedup :: "string list \<Rightarrow> string list" where
  "dedup ips = fst (fold dedup_step ips ([], {}))"

text \<open>
  The function itself. \<open>fs\<close> is the file system: the text of the file at a path, or the
  exception \<^verbatim>\<open>open\<close> raises. \<^verbatim>\<open>if ips_arg:\<close> and \<^verbatim>\<open>if ips_file:\<close> are false for \<^verbatim>\<open>None\<close> and
  for the empty string.
\<close>

definition iter_ips_from_args ::
    "(string \<Rightarrow> exn + string) \<Rightarrow> string option \<Rightarrow> string option \<Rightarrow> exn + string list" where
  "iter_ips_from_args fs ips_arg ips_file =
     (let ips = [];
          ips = (case ips_arg of
                   None \<Rightarrow> ips
                 | Some a \<Rightarrow> if a \<noteq> [] then ips @ inline_ips a else ips)
      in case (case ips_file of
                 None \<Rightarrow> Inr ips
               | Some p \<Rightarrow>
                   if p \<noteq> [] then
                     (case fs p of Inl e \<Rightarrow> Inl e | Inr text \<Rightarrow> Inr (read_ips_file text ips))
                   else Inr ips) of
           Inl e \<Rightarrow> Inl e
         | Inr ips \<Rightarrow> Inr (dedup ips))"

section \<open>The world outside the script\<close>

text \<open>
  Everything the script reads from outside is a field of \<open>world\<close>: the process environment,
  the result of the \<open>k\<close>-th call of \<^verbatim>\<open>requests.get\<close>, the clock at its \<open>k\<close>-th reading, the
  outcome of connecting to the store, of creating the index and of the \<open>k\<close>-th write, the
  file system, and the answer of the operating system to a sleep. Everything the script does to the outside is an \<open>event\<close> appended to the
  \<open>trace\<close> of the \<open>state\<close>, which also counts the calls made so far.
\<close>

record response =
  status_code :: int
  json_body :: "json option"  \<comment> \<open>what \<^verbatim>\<open>resp.json()\<close> decodes; \<open>None\<close> when the body is not JSON\<close>

datatype collection = Collection string string

datatype store_op =
    Update_one pydict pydict bool  \<comment> \<open>filter, update, \<^verbatim>\<open>upsert=\<close>\<close>
  | Insert_one pydict

datatype event =
    Http_get string "(string \<times> string) list" int  \<comment> \<open>url, headers, timeout\<close>
  | Sleep int
  | Warn_rate_limited int int
  | Warn_retry string int int exn int
  | Warn_index exn
  | Error_connect exn
  | Error_failed string exn
  | Error_no_ips
  | Print_doc pydict
  | Info_status string string
  | Mongo_connect string
  | Create_index collection "(string \<times> int) list"
  | Store collection store_op

record world =
  environ :: "string \<Rightarrow> string option"
  http_results :: "nat \<Rightarrow> exn + response"
  clock :: "nat \<Rightarrow> string"
  mongo_connect :: "exn option"  \<comment> \<open>raised by \<^verbatim>\<open>MongoClient(...)\<close> or by the ping, if any\<close>
  mongo_create_index :: "exn option"
  mongo_write :: "nat \<Rightarrow> exn option"
  files :: "string \<Rightarrow> exn + string"
  os_sleep :: "int \<Rightarrow> exn option"  \<comment> \<open>raised by the system's sleep call for a duration, if any\<close>

record state =
  trace :: "event list"
  n_get :: nat
  n_now :: nat
  n_write :: nat

definition emit :: "event \<Rightarrow> state \<Rightarrow> state" where
  "emit ev s = s\<lparr>trace := trace s @ [ev]\<rparr>"

definition exn_bind :: "exn + 'a \<Rightarrow> ('a \<Rightarrow> exn + 'b) \<Rightarrow> exn + 'b" where
  "exn_bind m f = (case m of Inl e \<Rightarrow> Inl e | Inr x \<Rightarrow> f x)"

text \<open>
  \<^verbatim>\<open>time.sleep(secs)\<close> on an integer: \<^verbatim>\<open>ValueError\<close> on a negative duration, \<^verbatim>\<open>OverflowError\<close>
  on one above 9223372036 seconds (its nanoseconds do not fit 64 bits), and otherwise what
  the system call answers: it returns, or raises \<^verbatim>\<open>OSError\<close> (a deadline past what the clock
  can represent).
\<close>

definition time_sleep :: "world \<Rightarrow> int \<Rightarrow> state \<Rightarrow> (exn + unit) \<times> state" where
  "time_sleep w secs s =
     (if secs < 0 then (Inl (ValueError ''sleep length must be non-negative''), s)
      else if 9223372036 < secs
        then (Inl (OverflowError ''timestamp too large to convert to C _PyTime_t''), s)
      else (case os_sleep w secs of
              Some e \<Rightarrow> (Inl e, s)
            | None \<Rightarrow> (Inr (), emit (Sleep secs) s)))"

definition requests_get ::
    "world \<Rightarrow> string \<Rightarrow> (string \<times> string) list \<Rightarrow> int \<Rightarrow> state \<Rightarrow> (exn + response) \<times> state" where
  "requests_get w url headers timeout s =
     (http_results w (n_get s), (emit (Http_get url headers timeout) s)\<lparr>n_get := Suc (n_get s)\<rparr>)"

text \<open>\<^verbatim>\<open>resp.raise_for_status()\<close> raises on the statuses 400 to 599.\<close>

definition raise_for_status :: "response \<Rightarrow> exn + unit" where
  "raise_for_status resp =
     (if 400 \<le> status_code resp \<and> status_code resp < 600 then Inl (HTTPError (status_code resp))
      else Inr ())"

definition resp_json :: "response \<Rightarrow> exn + json" where
  "resp_json resp = (case json_body resp of None \<Rightarrow> Inl JSONDecodeError | Some j \<Rightarrow> Inr j)"

section \<open>Fetcher: \<^verbatim>\<open>fetch_otx_general\<close>\<close>

definition OTX_URL :: "string \<Rightarrow> string" where
  "OTX_URL ip = ''https://otx.alienvault.com/api/v1/indicators/IPv4/'' @ ip @ ''/general''"

text \<open>How the body of the \<^verbatim>\<open>try\<close> ends: \<^verbatim>\<open>return\<close>, \<^verbatim>\<open>continue\<close>, or an exception.\<close>

datatype 'a ctl = Return 'a | Continue | Raise exn

definition try_body ::
    "world \<Rightarrow> string \<Rightarrow> (string \<times> string) list \<Rightarrow> int \<Rightarrow> int \<Rightarrow> int \<Rightarrow> state \<Rightarrow> json ctl \<times> state" where
  "try_body w url headers timeout backoff attempt s =
     (case requests_get w url headers timeout s of
        (Inl e, s1) \<Rightarrow> (Raise e, s1)
      | (Inr resp, s1) \<Rightarrow>
          if status_code resp = 429 then
            (let sleep_for = backoff * attempt;
                 s2 = emit (Warn_rate_limited attempt sleep_for) s1
             in case time_sleep w sleep_for s2 of
                  (Inl e, s3) \<Rightarrow> (Raise e, s3)
                | (Inr u, s3) \<Rightarrow> (Continue, s3))
          else
            (case raise_for_status resp of
               Inl e \<Rightarrow> (Raise e, s1)
             | Inr u \<Rightarrow>
                 (case resp_json resp of
                    Inl e \<Rightarrow> (Raise e, s1)
                  | Inr j \<Rightarrow> (Return j, s1))))"

text \<open>\<^verbatim>\<open>except (requests.RequestException, json.JSONDecodeError)\<close>.\<close>

fun caught_by_fetch :: "exn \<Rightarrow> bool" where
  "caught_by_fetch (RequestException m) = True"
| "caught_by_fetch (HTTPError c) = True"
| "caught_by_fetch JSONDecodeError = True"
| "caught_by_fetch e = False"

text \<open>The \<^verbatim>\<open>for\<close> loop over the attempts still to make, and what follows it.\<close>

fun fetch_attempts ::
    "world \<Rightarrow> string \<Rightarrow> string \<Rightarrow> (string \<times> string) list \<Rightarrow> int \<Rightarrow> int \<Rightarrow> int \<Rightarrow> int list \<Rightarrow> state
      \<Rightarrow> (exn + json) \<times> state" where
  "fetch_attempts w ip url headers timeout max_retries backoff [] s =
     (Inl (RuntimeError ''Exhausted retries unexpectedly''), s)"
| "fetch_attempts w ip url headers timeout max_retries backoff (attempt # rest) s =
     (case try_body w url headers timeout backoff attempt s of
        (Return j, s1) \<Rightarrow> (Inr j, s1)
      | (Continue, s1) \<Rightarrow> fetch_attempts w ip url headers timeout max_retries backoff rest s1
      | (Raise e, s1) \<Rightarrow>
          if caught_by_fetch e then
            if attempt = max_retries then (Inl e, s1)
            else
              (let sleep_for = backoff * attempt;
                   s2 = emit (Warn_retry ip attempt max_retries e sleep_for) s1
               in case time_sleep w sleep_for s2 of
                    (Inl e', s3) \<Rightarrow> (Inl e', s3)
                  | (Inr u, s3) \<Rightarrow>
                      fetch_attempts w ip url headers timeout max_retries backoff rest s3)
          else (Inl e, s1))"

text \<open>\<^verbatim>\<open>range(1, max_retries + 1)\<close> is \<open>[1..max_retries]\<close>.\<close>

definition fetch_otx_general ::
    "world \<Rightarrow> string \<Rightarrow> (string \<times> string) list \<Rightarrow> int \<Rightarrow> int \<Rightarrow> int \<Rightarrow> state \<Rightarrow> (exn + json) \<times> state" where
  "fetch_otx_general w ip headers timeout max_retries backoff s =
     fetch_attempts w ip (OTX_URL ip) headers timeout max_retries backoff [1..max_retries] s"

section \<open>Transformer: \<^verbatim>\<open>transform\<close>\<close>

text \<open>\<^verbatim>\<open>x.get(k, dflt)\<close>: only a \<^verbatim>\<open>dict\<close> among the JSON values has the method.\<close>

definition py_get :: "json \<Rightarrow> string \<Rightarrow> json \<Rightarrow> exn + json" where
  "py_get x k dflt =
     (case x of
        JObj d \<Rightarrow> Inr (case map_of d k of None \<Rightarrow> dflt | Some v \<Rightarrow> v)
      | _ \<Rightarrow> Inl (AttributeError ''get''))"

definition isinstance_dict :: "json \<Rightarrow> bool" where
  "isinstance_dict x = (case x of JObj d \<Rightarrow> True | _ \<Rightarrow> False)"

text \<open>
  \<^verbatim>\<open>payload.get(a, {}).get(b) if isinstance(payload.get(a), dict) else None\<close>, the shape of
  both \<^verbatim>\<open>alexa_rank\<close> and \<^verbatim>\<open>pulse_count\<close>; the condition is evaluated first.
\<close>

definition nested_field :: "json \<Rightarrow> string \<Rightarrow> string \<Rightarrow> exn + json" where
  "nested_field payload a b =
     exn_bind (py_get payload a JNull) (\<lambda>t.
       if isinstance_dict t then exn_bind (py_get payload a (JObj [])) (\<lambda>inner. py_get inner b JNull)
       else Inr JNull)"

definition datetime_now :: "world \<Rightarrow> state \<Rightarrow> string \<times> state" where
  "datetime_now w s = (clock w (n_now s), s\<lparr>n_now := Suc (n_now s)\<rparr>)"

definition transform :: "world \<Rightarrow> string \<Rightarrow> json \<Rightarrow> state \<Rightarrow> (exn + pydict) \<times> state" where
  "transform w ip payload s =
     (case datetime_now w s of
        (now, s1) \<Rightarrow>
          (exn_bind (py_get payload ''indicator'' JNull) (\<lambda>indicator.
           exn_bind (nested_field payload ''alexa'' ''rank'') (\<lambda>alexa_rank.
           exn_bind (nested_field payload ''pulse_info'' ''count'') (\<lambda>pulse_count.
             Inr [(''ip'', JStr ip),
                  (''source'', JStr ''AlienVault OTX''),
                  (''endpoint'', JStr ''IPv4/general''),
                  (''fetched_at'', JStr now),
                  (''raw'', payload),
                  (''indicator'', indicator),
                  (''alexa_rank'', alexa_rank),
                  (''pulse_count'', pulse_count)]))), s1))"

section \<open>Persistence Layer: \<^verbatim>\<open>get_mongo_collection\<close> and \<^verbatim>\<open>upsert_document\<close>\<close>

fun is_pymongo_error :: "exn \<Rightarrow> bool" where
  "is_pymongo_error (PyMongoError m) = True"
| "is_pymongo_error e = False"

definition get_mongo_collection ::
    "world \<Rightarrow> string \<Rightarrow> string \<Rightarrow> string \<Rightarrow> state \<Rightarrow> (exn + collection) \<times> state" where
  "get_mongo_collection w mongo_uri db_name coll_name s =
     (let s1 = emit (Mongo_connect mongo_uri) s
      in case mongo_connect w of
           Some e \<Rightarrow> (Inl e, s1)
         | None \<Rightarrow>
             (let coll = Collection db_name coll_name;
                  s2 = emit (Create_index coll [(''ip'', 1), (''fetched_at'', 1)]) s1
              in case mongo_create_index w of
                   None \<Rightarrow> (Inr coll, s2)
                 | Some e \<Rightarrow>
                     if is_pymongo_error e then (Inr coll, emit (Warn_index e) s2)
                     else (Inl e, s2)))"

text \<open>A call of \<^verbatim>\<open>coll.update_one\<close> or \<^verbatim>\<open>coll.insert_one\<close>; \<^verbatim>\<open>None\<close> has neither method.\<close>

definition coll_write ::
    "world \<Rightarrow> collection option \<Rightarrow> store_op \<Rightarrow> state \<Rightarrow> (exn + unit) \<times> state" where
  "coll_write w coll op s =
     (case coll of
        None \<Rightarrow> (Inl (AttributeError ''NoneType''), s)
      | Some c \<Rightarrow>
          (case mongo_write w (n_write s) of
             Some e \<Rightarrow> (Inl e, (emit (Store c op) s)\<lparr>n_write := Suc (n_write s)\<rparr>)
           | None \<Rightarrow> (Inr (), (emit (Store c op) s)\<lparr>n_write := Suc (n_write s)\<rparr>)))"

text \<open>
  \<^verbatim>\<open>upsert_key and upsert_key in doc and doc[upsert_key] is not None\<close>, with the key and
  its value when the condition holds.
\<close>

definition upsert_target :: "string option \<Rightarrow> pydict \<Rightarrow> (string \<times> json) option" where
  "upsert_target upsert_key doc =
     (case upsert_key of
        None \<Rightarrow> None
      | Some k \<Rightarrow>
          if k \<noteq> [] then
            (case map_of doc k of
               None \<Rightarrow> None
             | Some v \<Rightarrow> if v \<noteq> JNull then Some (k, v) else None)
          else None)"

definition upsert_document ::
    "world \<Rightarrow> collection option \<Rightarrow> pydict \<Rightarrow> string option \<Rightarrow> state \<Rightarrow> (exn + string) \<times> state" where
  "upsert_document w coll doc upsert_key s =
     (case upsert_target upsert_key doc of
        Some (k, v) \<Rightarrow>
          (case coll_write w coll (Update_one [(k, v)] [(''$set'', JObj doc)] True) s of
             (Inl e, s1) \<Rightarrow> (Inl e, s1)
           | (Inr u, s1) \<Rightarrow> (Inr ''upserted'', s1))
      | None \<Rightarrow>
          (case coll_write w coll (Insert_one doc) s of
             (Inl e, s1) \<Rightarrow> (Inl e, s1)
           | (Inr u, s1) \<Rightarrow> (Inr ''inserted'', s1)))"

section \<open>Orchestrator: \<^verbatim>\<open>load_env\<close>, \<^verbatim>\<open>run\<close> and \<^verbatim>\<open>main\<close>\<close>

record env =
  MONGO_URI :: string
  MONGO_DB :: string
  MONGO_COLLECTION :: string
  OTX_API_KEY :: string
  OTX_USER_AGENT :: string
  REQUEST_TIMEOUT :: string
  MAX_RETRIES :: string
  RETRY_BACKOFF_SECONDS :: string

definition getenv :: "world \<Rightarrow> string \<Rightarrow> string \<Rightarrow> string" where
  "getenv w name dflt = (case environ w name of None \<Rightarrow> dflt | Some v \<Rightarrow> v)"

definition load_env :: "world \<Rightarrow> env" where
  "load_env w =
     \<lparr>MONGO_URI = getenv w ''MONGO_URI'' ''mongodb://localhost:27017'',
      MONGO_DB = getenv w ''MONGO_DB'' ''otx'',
      MONGO_COLLECTION = getenv w ''MONGO_COLLECTION'' ''otx_ipv4_raw'',
      OTX_API_KEY = getenv w ''OTX_API_KEY'' [],
      OTX_USER_AGENT = getenv w ''OTX_USER_AGENT'' ''SSN-SA-ETL/1.0'',
      REQUEST_TIMEOUT = getenv w ''REQUEST_TIMEOUT'' ''20'',
      MAX_RETRIES = getenv w ''MAX_RETRIES'' ''3'',
      RETRY_BACKOFF_SECONDS = getenv w ''RETRY_BACKOFF_SECONDS'' ''2''\<rparr>"

text \<open>
  \<^verbatim>\<open>int(s)\<close> on a string: surrounding whitespace, an optional sign, then decimal digits in
  groups separated by single underscores. The whitespace \<^verbatim>\<open>int\<close> skips is not that of
  \<^verbatim>\<open>str.strip\<close>: the separators U+001C to U+001F are not skipped. The digits are scanned
  first: a literal of more than 4300 digits is refused (the default of
  \<^verbatim>\<open>sys.int_max_str_digits\<close>) before what follows the digits is looked at.
\<close>

definition int_space :: "char \<Rightarrow> bool" where
  "int_space c =
     (let n = (of_char c :: nat)
      in (9 \<le> n \<and> n \<le> 13) \<or> n = 32 \<or> n = 133 \<or> n = 160)"

definition isdigit :: "char \<Rightarrow> bool" where
  "isdigit c = (48 \<le> (of_char c :: nat) \<and> (of_char c :: nat) \<le> 57)"

definition digits_value :: "string \<Rightarrow> int" where
  "digits_value ds = foldl (\<lambda>acc c. 10 * acc + (int (of_char c) - 48)) 0 ds"

definition py_int :: "string \<Rightarrow> exn + int" where
  "py_int s =
     (let t = rev (dropWhile int_space (rev (dropWhile int_space s)));
          neg = (case t of [] \<Rightarrow> False | c # r \<Rightarrow> c = CHR ''-'');
          body = (case t of [] \<Rightarrow> t | c # r \<Rightarrow> if c = CHR ''-'' \<or> c = CHR ''+'' then r else t);
          scan = takeWhile (\<lambda>c. isdigit c \<or> c = CHR ''_'') body;
          rest = dropWhile (\<lambda>c. isdigit c \<or> c = CHR ''_'') body;
          groups = split_on CHR ''_'' scan
      in if \<not> list_all (\<lambda>g. g \<noteq> [] \<and> list_all isdigit g) groups
         then Inl (ValueError ''invalid literal for int() with base 10'')
         else if 4300 < length (concat groups)
         then Inl (ValueError ''Exceeds the limit (4300 digits) for integer string conversion'')
         else if rest \<noteq> []
         then Inl (ValueError ''invalid literal for int() with base 10'')
         else Inr ((if neg then - 1 else 1) * digits_value (concat groups)))"

text \<open>The body of the \<^verbatim>\<open>try\<close> inside the loop of \<^verbatim>\<open>run\<close>, up to \<^verbatim>\<open>successes += 1\<close>.\<close>

definition try_ip ::
    "world \<Rightarrow> (string \<times> string) list \<Rightarrow> int \<Rightarrow> int \<Rightarrow> int \<Rightarrow> collection option \<Rightarrow> bool \<Rightarrow> string option
      \<Rightarrow> string \<Rightarrow> state \<Rightarrow> (exn + unit) \<times> state" where
  "try_ip w headers timeout max_retries backoff coll dry_run upsert_key ip s =
     (case fetch_otx_general w ip headers timeout max_retries backoff s of
        (Inl e, s1) \<Rightarrow> (Inl e, s1)
      | (Inr payload, s1) \<Rightarrow>
          (case transform w ip payload s1 of
             (Inl e, s2) \<Rightarrow> (Inl e, s2)
           | (Inr doc, s2) \<Rightarrow>
               if dry_run then (Inr (), emit (Print_doc doc) s2)
               else
                 (case upsert_document w coll doc upsert_key s2 of
                    (Inl e, s3) \<Rightarrow> (Inl e, s3)
                  | (Inr status, s3) \<Rightarrow> (Inr (), emit (Info_status ip status) s3))))"

text \<open>The loop \<^verbatim>\<open>for ip in ips\<close> with its \<^verbatim>\<open>except Exception\<close> and the counter \<^verbatim>\<open>successes\<close>.\<close>

fun run_loop ::
    "world \<Rightarrow> (string \<times> string) list \<Rightarrow> int \<Rightarrow> int \<Rightarrow> int \<Rightarrow> collection option \<Rightarrow> bool \<Rightarrow> string option
      \<Rightarrow> string list \<Rightarrow> int \<Rightarrow> state \<Rightarrow> int \<times> state" where
  "run_loop w headers timeout max_retries backoff coll dry_run upsert_key [] successes s =
     (successes, s)"
| "run_loop w headers timeout max_retries backoff coll dry_run upsert_key (ip # rest) successes s =
     (case try_ip w headers timeout max_retries backoff coll dry_run upsert_key ip s of
        (Inr u, s1) \<Rightarrow>
          run_loop w headers timeout max_retries backoff coll dry_run upsert_key rest
            (successes + 1) s1
      | (Inl e, s1) \<Rightarrow>
          run_loop w headers timeout max_retries backoff coll dry_run upsert_key rest
            successes (emit (Error_failed ip e) s1))"

definition make_headers :: "env \<Rightarrow> (string \<times> string) list" where
  "make_headers e =
     (let headers = [(''Accept'', ''application/json''),
                     (''User-Agent'',
                      if OTX_USER_AGENT e \<noteq> [] then OTX_USER_AGENT e else ''SSN-SA-ETL/1.0'')]
      in if OTX_API_KEY e \<noteq> [] then headers @ [(''X-OTX-API-KEY'', OTX_API_KEY e)] else headers)"

text \<open>
  The \<^verbatim>\<open>if not dry_run\<close> block: \<open>Inl 2\<close> is the \<^verbatim>\<open>return 2\<close> of its handler, \<open>Inr\<close> the value
  of \<^verbatim>\<open>coll\<close> the loop then uses.
\<close>

definition open_store :: "world \<Rightarrow> env \<Rightarrow> bool \<Rightarrow> state \<Rightarrow> (int + collection option) \<times> state" where
  "open_store w e dry_run s =
     (if \<not> dry_run then
        (case get_mongo_collection w (MONGO_URI e) (MONGO_DB e) (MONGO_COLLECTION e) s of
           (Inl ex, s1) \<Rightarrow> (Inl 2, emit (Error_connect ex) s1)
         | (Inr c, s1) \<Rightarrow> (Inr (Some c), s1))
      else (Inr None, s))"

text \<open>The three \<^verbatim>\<open>int(env[...])\<close> at the head of \<^verbatim>\<open>run\<close>, in their order; the first failure is raised.\<close>

definition parse_settings :: "env \<Rightarrow> exn + int \<times> int \<times> int" where
  "parse_settings e =
     exn_bind (py_int (REQUEST_TIMEOUT e)) (\<lambda>timeout.
     exn_bind (py_int (MAX_RETRIES e)) (\<lambda>max_retries.
     exn_bind (py_int (RETRY_BACKOFF_SECONDS e)) (\<lambda>backoff.
       Inr (timeout, max_retries, backoff))))"

definition run :: "world \<Rightarrow> string list \<Rightarrow> bool \<Rightarrow> string option \<Rightarrow> state \<Rightarrow> (exn + int) \<times> state" where
  "run w ips dry_run upsert_key s =
     (let e = load_env w
      in case parse_settings e of
           Inl ex \<Rightarrow> (Inl ex, s)
         | Inr (timeout, max_retries, backoff) \<Rightarrow>
             (case open_store w e dry_run s of
                (Inl code, s1) \<Rightarrow> (Inr code, s1)
              | (Inr coll, s1) \<Rightarrow>
                  (case run_loop w (make_headers e) timeout max_retries backoff coll
                          dry_run upsert_key ips 0 s1 of
                     (successes, s2) \<Rightarrow>
                       (Inr (if successes = int (length ips) then 0 else 1), s2))))"

record args =
  arg_ips :: "string option"
  arg_ips_file :: "string option"
  arg_dry_run :: bool
  arg_upsert_key :: string

definition main :: "world \<Rightarrow> args \<Rightarrow> state \<Rightarrow> (exn + int) \<times> state" where
  "main w a s =
     (case iter_ips_from_args (files w) (arg_ips a) (arg_ips_file a) of
        Inl ex \<Rightarrow> (Inl ex, s)
      | Inr ips \<Rightarrow>
          if ips = [] then (Inr 1, emit Error_no_ips s)
          else run w ips (arg_dry_run a) (Some (arg_upsert_key a)) s)"

text \<open>
  \<^verbatim>\<open>sys.exit(main())\<close>: the process exits with the status \<^verbatim>\<open>main\<close> returns, and with 1 when
  an exception leaves \<^verbatim>\<open>main\<close>.
\<close>

definition exit_status :: "exn + int \<Rightarrow> int" where
  "exit_status r = (case r of Inl ex \<Rightarrow> 1 | Inr code \<Rightarrow> code)"

definition initial :: state where
  "initial = \<lparr>trace = [], n_get = 0, n_now = 0, n_write = 0\<rparr>"

section \<open>The specification's words\<close>

text \<open>
  The definitions of this section follow the specification's sentences, not the code; the
  properties below compare them with the functions above.
\<close>

text \<open>The inline tokens: split on the comma, trimmed, the empty ones discarded.\<close>

definition spec_tokens :: "string option \<Rightarrow> string list" where
  "spec_tokens ips_arg =
     (case ips_arg of
        None \<Rightarrow> []
      | Some a \<Rightarrow> filter (\<lambda>t. t \<noteq> []) (map strip (split_on CHR '','' a)))"

text \<open>The first character of a line that is not whitespace, if it has one.\<close>

definition first_nonspace :: "string \<Rightarrow> char option" where
  "first_nonspace l = (case dropWhile isspace l of [] \<Rightarrow> None | c # r \<Rightarrow> Some c)"

text \<open>
  The lines of the file, trimmed, without the blank lines and the lines whose first
  non-whitespace character is \<^verbatim>\<open>#\<close>.
\<close>

definition spec_file_lines :: "string option \<Rightarrow> string list" where
  "spec_file_lines content =
     (case content of
        None \<Rightarrow> []
      | Some text \<Rightarrow>
          map strip
            (filter (\<lambda>l. first_nonspace l \<noteq> None \<and> first_nonspace l \<noteq> Some CHR ''#'')
               (file_lines text)))"

text \<open>A list without every element that already appeared earlier in it.\<close>

definition spec_first_occurrences :: "string list \<Rightarrow> string list" where
  "spec_first_occurrences xs =
     map (\<lambda>i. xs ! i) (filter (\<lambda>i. xs ! i \<notin> set (take i xs)) [0..<length xs])"

text \<open>The keys of a Record, in the order the Transformer writes them.\<close>

definition record_keys :: "string list" where
  "record_keys = [''ip'', ''source'', ''endpoint'', ''fetched_at'', ''raw'', ''indicator'', ''alexa_rank'', ''pulse_count'']"

text \<open>A field of a payload, null when it is absent.\<close>

definition spec_field :: "pydict \<Rightarrow> string \<Rightarrow> json" where
  "spec_field d k = (case map_of d k of None \<Rightarrow> JNull | Some v \<Rightarrow> v)"

text \<open>The field \<open>a.b\<close> of a payload when its \<open>a\<close> is itself a mapping, null otherwise.\<close>

definition spec_nested :: "pydict \<Rightarrow> string \<Rightarrow> string \<Rightarrow> json" where
  "spec_nested d a b =
     (case map_of d a of
        Some (JObj inner) \<Rightarrow> spec_field inner b
      | _ \<Rightarrow> JNull)"

text \<open>
  An upsert key name is provided (it is neither \<^verbatim>\<open>None\<close> nor empty), is a field of the
  document, and that field is not null.
\<close>

definition spec_key_usable :: "string option \<Rightarrow> pydict \<Rightarrow> bool" where
  "spec_key_usable upsert_key doc =
     (case upsert_key of
        None \<Rightarrow> False
      | Some k \<Rightarrow> k \<noteq> [] \<and> k \<in> fst ` set doc \<and> map_of doc k \<noteq> Some JNull)"

section \<open>Observations on a run\<close>

text \<open>
  What a trace shows, and what happens to each address of a list: the vocabulary in which the
  properties of the Fetcher and of the Orchestrator are stated.
\<close>

text \<open>The durations of the sleeps of a trace, in order.\<close>

fun sleeps :: "event list \<Rightarrow> int list" where
  "sleeps [] = []"
| "sleeps (Sleep d # evs) = d # sleeps evs"
| "sleeps (ev # evs) = sleeps evs"

text \<open>The request attempts of a trace are its \<open>Http_get\<close> events.\<close>

fun is_request :: "event \<Rightarrow> bool" where
  "is_request (Http_get url headers timeout) = True"
| "is_request ev = False"

text \<open>
  An attempt fails, and with which exception: at the transport level, with an error status
  other than 429, or with a body that is not JSON.
\<close>

definition attempt_failure :: "exn + response \<Rightarrow> exn option" where
  "attempt_failure r =
     (case r of
        Inl e \<Rightarrow> (case e of RequestException m \<Rightarrow> Some e | _ \<Rightarrow> None)
      | Inr resp \<Rightarrow>
          if status_code resp = 429 then None
          else if 400 \<le> status_code resp \<and> status_code resp < 600
            then Some (HTTPError (status_code resp))
          else if json_body resp = None then Some JSONDecodeError
          else None)"

text \<open>
  The events of a trace, by the component that makes them: the Fetcher's requests, sleeps and
  warnings; the store's connection, index creation and writes.
\<close>

fun is_fetch_event :: "event \<Rightarrow> bool" where
  "is_fetch_event (Http_get url headers timeout) = True"
| "is_fetch_event (Sleep d) = True"
| "is_fetch_event (Warn_rate_limited attempt d) = True"
| "is_fetch_event (Warn_retry ip attempt n e d) = True"
| "is_fetch_event ev = False"

fun is_store_event :: "event \<Rightarrow> bool" where
  "is_store_event (Mongo_connect uri) = True"
| "is_store_event (Create_index c keys) = True"
| "is_store_event (Store c op) = True"
| "is_store_event ev = False"

text \<open>The Record a dry run prints on standard output.\<close>

fun printed_doc :: "event \<Rightarrow> pydict option" where
  "printed_doc (Print_doc doc) = Some doc"
| "printed_doc ev = None"

text \<open>The address an error line of the orchestrator reports as failed.\<close>

fun failed_address :: "event \<Rightarrow> string option" where
  "failed_address (Error_failed ip e) = Some ip"
| "failed_address ev = None"

text \<open>
  The address an event settles: the orchestrator ends the processing of every address with
  one line, the error, the status after a write, or the printed Record.
\<close>

fun settled :: "event \<Rightarrow> string option" where
  "settled (Error_failed ip e) = Some ip"
| "settled (Info_status ip status) = Some ip"
| "settled (Print_doc doc) = (case map_of doc ''ip'' of Some (JStr ip) \<Rightarrow> Some ip | _ \<Rightarrow> None)"
| "settled ev = None"

text \<open>
  Whether the processing of one address succeeds (nothing is raised up to \<^verbatim>\<open>successes += 1\<close>),
  the state it leaves, and the outcomes of a list of addresses processed in order.
\<close>

definition address_ok ::
    "world \<Rightarrow> (string \<times> string) list \<Rightarrow> int \<Rightarrow> int \<Rightarrow> int \<Rightarrow> collection option \<Rightarrow> bool \<Rightarrow> string option
      \<Rightarrow> string \<Rightarrow> state \<Rightarrow> bool" where
  "address_ok w headers timeout max_retries backoff coll dry_run upsert_key ip s =
     (case fst (try_ip w headers timeout max_retries backoff coll dry_run upsert_key ip s) of
        Inl e \<Rightarrow> False
      | Inr u \<Rightarrow> True)"

definition after_address ::
    "world \<Rightarrow> (string \<times> string) list \<Rightarrow> int \<Rightarrow> int \<Rightarrow> int \<Rightarrow> collection option \<Rightarrow> bool \<Rightarrow> string option
      \<Rightarrow> string \<Rightarrow> state \<Rightarrow> state" where
  "after_address w headers timeout max_retries backoff coll dry_run upsert_key ip s =
     (case try_ip w headers timeout max_retries backoff coll dry_run upsert_key ip s of
        (Inl e, s1) \<Rightarrow> emit (Error_failed ip e) s1
      | (Inr u, s1) \<Rightarrow> s1)"

fun address_outcomes ::
    "world \<Rightarrow> (string \<times> string) list \<Rightarrow> int \<Rightarrow> int \<Rightarrow> int \<Rightarrow> collection option \<Rightarrow> bool \<Rightarrow> string option
      \<Rightarrow> string list \<Rightarrow> state \<Rightarrow> bool list" where
  "address_outcomes w headers timeout max_retries backoff coll dry_run upsert_key [] s = []"
| "address_outcomes w headers timeout max_retries backoff coll dry_run upsert_key (ip # rest) s =
     address_ok w headers timeout max_retries backoff coll dry_run upsert_key ip s #
     address_outcomes w headers timeout max_retries backoff coll dry_run upsert_key rest
       (after_address w headers timeout max_retries backoff coll dry_run upsert_key ip s)"


definition failed_of :: "string list \<Rightarrow> bool list \<Rightarrow> string list" where
  "failed_of ips os = map fst (filter (\<lambda>p. \<not> snd p) (zip ips os))"

text \<open>
  A duration \<^verbatim>\<open>time.sleep\<close> accepts: not negative, at most 9223372036 seconds, and the
  system's sleep call does not fail on it.
\<close>

definition sleep_accepts :: "world \<Rightarrow> int \<Rightarrow> bool" where
  "sleep_accepts w d = (0 \<le> d \<and> d \<le> 9223372036 \<and> os_sleep w d = None)"

text \<open>
  The events of the failing attempt numbered \<open>i\<close>, when \<open>N\<close> attempts are allowed and the first
  of them is the request numbered \<open>c\<close>: the request and, unless the attempt is the last one,
  the warning and the sleep of \<open>backoff * i\<close> seconds.
\<close>

definition failed_attempt_events ::
    "world \<Rightarrow> nat \<Rightarrow> string \<Rightarrow> (string \<times> string) list \<Rightarrow> int \<Rightarrow> int \<Rightarrow> int \<Rightarrow> int \<Rightarrow> event list" where
  "failed_attempt_events w c ip headers timeout N backoff i =
     Http_get (OTX_URL ip) headers timeout #
     (if i = N then []
      else (case attempt_failure (http_results w (c + nat (i - 1))) of
              None \<Rightarrow> []
            | Some e \<Rightarrow> [Warn_retry ip i N e (backoff * i), Sleep (backoff * i)]))"


section \<open>Example inputs\<close>

text \<open>A world where the network answers as given and everything else works.\<close>

definition world_with :: "(nat \<Rightarrow> exn + response) \<Rightarrow> world" where
  "world_with results =
     \<lparr>environ = Map.empty, http_results = results, clock = (\<lambda>k. ''2024-01-01T00:00:00+00:00''),
      mongo_connect = None, mongo_create_index = None, mongo_write = (\<lambda>k. None),
      files = (\<lambda>p. Inl (OSError p)), os_sleep = (\<lambda>d. None)\<rparr>"

text \<open>
  An example: default settings, a reachable store, a network that answers the first request
  with a JSON object and then times out; two addresses on the command line.
\<close>

definition example_responses :: "nat \<Rightarrow> exn + response" where
  "example_responses k =
     (if k = 0 then Inr \<lparr>status_code = 200, json_body = Some (JObj [(''indicator'', JStr ''8.8.8.8'')])\<rparr>
      else Inl (RequestException ''timed out''))"

definition example_args :: "bool \<Rightarrow> args" where
  "example_args dry =
     \<lparr>arg_ips = Some ''8.8.8.8,1.1.1.1'', arg_ips_file = None, arg_dry_run = dry,
      arg_upsert_key = ''indicator''\<rparr>"

definition example_startup :: state where
  "example_startup =
     \<lparr>trace = [Mongo_connect ''mongodb://localhost:27017'',
               Create_index (Collection ''otx'' ''otx_ipv4_raw'') [(''ip'', 1), (''fetched_at'', 1)]],
      n_get = 0, n_now = 0, n_write = 0\<rparr>"

section \<open>Properties\<close>

subsection \<open>Input Collector\<close>

lemma strip_Nil: "strip [] = []" by (simp add: strip_def)

lemma spec_first_occurrences_snoc:
  "spec_first_occurrences (xs @ [x]) =
     spec_first_occurrences xs @ (if x \<in> set xs then [] else [x])"
proof -
  let ?P = "\<lambda>i. (xs @ [x]) ! i \<notin> set (take i (xs @ [x]))"
  let ?Q = "\<lambda>i. xs ! i \<notin> set (take i xs)"
  have A: "filter ?P [0..<length xs] = filter ?Q [0..<length xs]"
    by (rule filter_cong) (auto simp: nth_append)
  have B: "map ((!) (xs @ [x])) (filter ?Q [0..<length xs]) = map ((!) xs) (filter ?Q [0..<length xs])"
    by (rule map_cong) (auto simp: nth_append)
  have "spec_first_occurrences (xs @ [x]) =
          map ((!) (xs @ [x])) (filter ?P [0..<length xs]) @ (if x \<in> set xs then [] else [x])"
    by (simp add: spec_first_occurrences_def)
  then show ?thesis
    by (simp only: A B spec_first_occurrences_def)
qed

lemma spec_first_occurrences_remdups:
  "spec_first_occurrences xs = rev (remdups (rev xs))"
proof (induction xs rule: rev_induct)
  case Nil
  show ?case by (simp add: spec_first_occurrences_def)
next
  case (snoc x xs)
  then show ?case by (simp add: spec_first_occurrences_snoc)
qed

lemma dedup_fold: "fold dedup_step xs ([], {}) = (spec_first_occurrences xs, set xs)"
proof (induction xs rule: rev_induct)
  case Nil
  show ?case by (simp add: spec_first_occurrences_def)
next
  case (snoc x xs)
  then show ?case by (auto simp: spec_first_occurrences_snoc dedup_step_def)
qed

lemma dedup_spec: "dedup xs = spec_first_occurrences xs"
  by (simp add: dedup_def dedup_fold)

lemma inline_ips_spec: "inline_ips a = spec_tokens (Some a)"
  by (simp add: inline_ips_def spec_tokens_def filter_map comp_def)

lemma strip_head:
  assumes "dropWhile isspace l = c # r"
  shows "\<exists>t. strip l = c # t"
proof -
  have nc: "\<not> isspace c" using assms by (metis dropWhile_eq_Cons_conv)
  have "dropWhile isspace (rev r @ [c]) = dropWhile isspace (rev r) @ [c] \<or>
        dropWhile isspace (rev r @ [c]) = [c]"
    using nc by (simp add: dropWhile_append)
  then have "strip l = c # rev (dropWhile isspace (rev r)) \<or> strip l = [c]"
    unfolding strip_def assms by auto
  then show ?thesis by blast
qed

lemma strip_empty_iff: "strip l = [] \<longleftrightarrow> first_nonspace l = None"
proof (cases "dropWhile isspace l")
  case Nil
  have "strip l = []" unfolding strip_def Nil by simp
  moreover have "first_nonspace l = None" unfolding first_nonspace_def Nil by simp
  ultimately show ?thesis by simp
next
  case (Cons c r)
  then show ?thesis using strip_head[OF Cons] by (auto simp: first_nonspace_def)
qed

lemma strip_comment_iff: "startswith (strip l) ''#'' \<longleftrightarrow> first_nonspace l = Some CHR ''#''"
proof (cases "dropWhile isspace l")
  case Nil
  have "strip l = []" unfolding strip_def Nil by simp
  moreover have "first_nonspace l = None" unfolding first_nonspace_def Nil by simp
  ultimately show ?thesis by (simp add: startswith_def)
next
  case (Cons c r)
  then show ?thesis using strip_head[OF Cons] by (auto simp: first_nonspace_def startswith_def)
qed

lemma read_ips_file_fold:
  "fold read_line ls ips =
     ips @ map strip (filter (\<lambda>l. first_nonspace l \<noteq> None \<and> first_nonspace l \<noteq> Some CHR ''#'') ls)"
  by (induction ls arbitrary: ips) (simp_all add: read_line_def Let_def strip_empty_iff strip_comment_iff)

lemma read_ips_file_spec: "read_ips_file text ips = ips @ spec_file_lines (Some text)"
  by (simp add: read_ips_file_def spec_file_lines_def read_ips_file_fold)

lemma first_occurrences_append:
  "spec_first_occurrences (xs @ ys) =
     spec_first_occurrences xs @ filter (\<lambda>y. y \<notin> set xs) (spec_first_occurrences ys)"
proof (induction ys rule: rev_induct)
  case Nil
  show ?case by (simp add: spec_first_occurrences_def)
next
  case (snoc y ys)
  have "spec_first_occurrences ((xs @ ys) @ [y]) =
          spec_first_occurrences (xs @ ys) @ (if y \<in> set (xs @ ys) then [] else [y])"
    by (rule spec_first_occurrences_snoc)
  then show ?case using snoc by (simp add: spec_first_occurrences_snoc)
qed

text \<open>
  C7. For every optional comma-separated string and optional file contents,
  \<^verbatim>\<open>iter_ips_from_args\<close> returns the inline tokens (split on the comma, trimmed, empty tokens
  discarded) followed by the file lines (trimmed, blank lines and lines whose first
  non-whitespace character is \<^verbatim>\<open>#\<close> discarded), with every address that already appeared
  earlier in that combined order removed. The result has no duplicates, holds exactly the
  addresses of both sources, and keeps the inline addresses first: the file contributes only
  the addresses the inline string did not. No file is a path that is \<^verbatim>\<open>None\<close> or empty; a
  file is a non-empty path the file system reads as \<open>text\<close>.
\<close>

theorem iter_ips_from_args_collects:
  "(ips_file = None \<or> ips_file = Some [] \<longrightarrow>
      iter_ips_from_args fs ips_arg ips_file =
        Inr (spec_first_occurrences (spec_tokens ips_arg @ spec_file_lines None)))
   \<and> (\<forall>p text. p \<noteq> [] \<and> fs p = Inr text \<longrightarrow>
        iter_ips_from_args fs ips_arg (Some p) =
          Inr (spec_first_occurrences (spec_tokens ips_arg @ spec_file_lines (Some text))))
   \<and> distinct (spec_first_occurrences (spec_tokens ips_arg @ spec_file_lines content))
   \<and> set (spec_first_occurrences (spec_tokens ips_arg @ spec_file_lines content)) =
       set (spec_tokens ips_arg) \<union> set (spec_file_lines content)
   \<and> spec_first_occurrences (spec_tokens ips_arg @ spec_file_lines content) =
       spec_first_occurrences (spec_tokens ips_arg) @
       filter (\<lambda>x. x \<notin> set (spec_tokens ips_arg)) (spec_first_occurrences (spec_file_lines content))"
proof -
  have tok: "(case ips_arg of None \<Rightarrow> [] | Some a \<Rightarrow> if a \<noteq> [] then [] @ inline_ips a else []) = spec_tokens ips_arg"
    by (cases ips_arg) (auto simp: inline_ips_spec spec_tokens_def strip_Nil)
  have nofile: "spec_file_lines None = []" by (simp add: spec_file_lines_def)
  have 1: "ips_file = None \<or> ips_file = Some [] \<longrightarrow>
      iter_ips_from_args fs ips_arg ips_file =
        Inr (spec_first_occurrences (spec_tokens ips_arg @ spec_file_lines None))"
    by (auto simp: iter_ips_from_args_def tok dedup_spec nofile)
  have 2: "\<forall>p text. p \<noteq> [] \<and> fs p = Inr text \<longrightarrow>
        iter_ips_from_args fs ips_arg (Some p) =
          Inr (spec_first_occurrences (spec_tokens ips_arg @ spec_file_lines (Some text)))"
    by (auto simp: iter_ips_from_args_def tok dedup_spec read_ips_file_spec)
  have 3: "distinct (spec_first_occurrences (spec_tokens ips_arg @ spec_file_lines content))"
    by (simp add: spec_first_occurrences_remdups)
  have 4: "set (spec_first_occurrences (spec_tokens ips_arg @ spec_file_lines content)) =
       set (spec_tokens ips_arg) \<union> set (spec_file_lines content)"
    by (simp add: spec_first_occurrences_remdups Un_commute)
  show ?thesis using 1 2 3 4 first_occurrences_append by blast
qed

theorem iter_ips_from_args_collects_witness:
  "iter_ips_from_args (\<lambda>p. Inr ''# watchlist\<newline>  9.9.9.9 \<newline>\<newline>1.1.1.1\<newline> #x\<newline>8.8.4.4'')
      (Some '' 8.8.8.8, 1.1.1.1 ,,8.8.8.8 '') (Some ''ips.txt'')
     = Inr [''8.8.8.8'', ''1.1.1.1'', ''9.9.9.9'', ''8.8.4.4'']
   \<and> iter_ips_from_args (\<lambda>p. Inl (OSError ''unused'')) (Some ''1.1.1.1,1.1.1.1'') None
     = Inr [''1.1.1.1'']"
proof -
  let ?T = "''# watchlist\<newline>  9.9.9.9 \<newline>\<newline>1.1.1.1\<newline> #x\<newline>8.8.4.4''"
  let ?A = "'' 8.8.8.8, 1.1.1.1 ,,8.8.8.8 ''"
  have a: "spec_first_occurrences (spec_tokens (Some ?A) @ spec_file_lines (Some ?T))
             = [''8.8.8.8'', ''1.1.1.1'', ''9.9.9.9'', ''8.8.4.4'']"
    by code_simp
  have b: "spec_first_occurrences (spec_tokens (Some ''1.1.1.1,1.1.1.1'') @ spec_file_lines None)
             = [''1.1.1.1'']"
    by code_simp
  show ?thesis
    using iter_ips_from_args_collects [of "Some ''ips.txt''" "\<lambda>p. Inr ?T" "Some ?A" "Some ?T"]
          iter_ips_from_args_collects [of None "\<lambda>p. Inl (OSError ''unused'')" "Some ''1.1.1.1,1.1.1.1''" None]
          a b
    by simp
qed

subsection \<open>Transformer\<close>

lemma nested_field_spec: "nested_field (JObj d) a b = Inr (spec_nested d a b)"
  by (simp add: nested_field_def py_get_def exn_bind_def isinstance_dict_def spec_nested_def
        spec_field_def split: option.split json.split)

text \<open>
  C6. For every address and every raw payload that is a JSON object, \<^verbatim>\<open>transform\<close> returns
  a Record (it never raises, whatever fields are missing) whose \<^verbatim>\<open>indicator\<close> is the payload's
  \<^verbatim>\<open>indicator\<close> (null if absent), whose \<^verbatim>\<open>alexa_rank\<close> is \<^verbatim>\<open>alexa.rank\<close> when the payload's
  \<^verbatim>\<open>alexa\<close> is itself a mapping and null otherwise, and whose \<^verbatim>\<open>pulse_count\<close> is
  \<^verbatim>\<open>pulse_info.count\<close> when \<^verbatim>\<open>pulse_info\<close> is itself a mapping and null otherwise; its only
  effect is one reading of the clock.
\<close>

theorem transform_record:
  "transform w ip (JObj d) s =
     (Inr [(''ip'', JStr ip),
           (''source'', JStr ''AlienVault OTX''),
           (''endpoint'', JStr ''IPv4/general''),
           (''fetched_at'', JStr (clock w (n_now s))),
           (''raw'', JObj d),
           (''indicator'', spec_field d ''indicator''),
           (''alexa_rank'', spec_nested d ''alexa'' ''rank''),
           (''pulse_count'', spec_nested d ''pulse_info'' ''count'')],
      s\<lparr>n_now := Suc (n_now s)\<rparr>)"
  by (simp add: transform_def datetime_now_def nested_field_spec exn_bind_def py_get_def
        spec_field_def)

theorem transform_record_witness:
  "fst (transform (world_with example_responses) ''1.2.3.4''
          (JObj [(''indicator'', JStr ''1.2.3.4''), (''alexa'', JObj [(''rank'', JInt 500)]),
                 (''pulse_info'', JObj [(''count'', JInt 3)])]) initial)
     = Inr [(''ip'', JStr ''1.2.3.4''),
           (''source'', JStr ''AlienVault OTX''),
           (''endpoint'', JStr ''IPv4/general''),
           (''fetched_at'', JStr ''2024-01-01T00:00:00+00:00''),
           (''raw'', JObj [(''indicator'', JStr ''1.2.3.4''), (''alexa'', JObj [(''rank'', JInt 500)]),
                 (''pulse_info'', JObj [(''count'', JInt 3)])]),
           (''indicator'', JStr ''1.2.3.4''),
           (''alexa_rank'', JInt 500),
           (''pulse_count'', JInt 3)]
   \<and> fst (transform (world_with example_responses) ''1.2.3.4''
          (JObj [(''alexa'', JStr ''not-a-map'')]) initial)
     = Inr [(''ip'', JStr ''1.2.3.4''),
           (''source'', JStr ''AlienVault OTX''),
           (''endpoint'', JStr ''IPv4/general''),
           (''fetched_at'', JStr ''2024-01-01T00:00:00+00:00''),
           (''raw'', JObj [(''alexa'', JStr ''not-a-map'')]),
           (''indicator'', JNull),
           (''alexa_rank'', JNull),
           (''pulse_count'', JNull)]"
  using transform_record
          [of "world_with example_responses" "''1.2.3.4''"
              "[(''indicator'', JStr ''1.2.3.4''), (''alexa'', JObj [(''rank'', JInt 500)]),
                (''pulse_info'', JObj [(''count'', JInt 3)])]" initial]
        transform_record
          [of "world_with example_responses" "''1.2.3.4''" "[(''alexa'', JStr ''not-a-map'')]" initial]
  by (simp add: spec_field_def spec_nested_def world_with_def initial_def)

subsection \<open>Persistence Layer\<close>

lemma map_of_Some_key: "map_of d k = Some v \<Longrightarrow> k \<in> fst ` set d"
  by (metis domI dom_map_of_conv_image_fst)

lemma upsert_target_spec:
  "upsert_target upsert_key doc =
     (if spec_key_usable upsert_key doc
      then Some (the upsert_key, the (map_of doc (the upsert_key))) else None)"
  by (auto simp: upsert_target_def spec_key_usable_def map_of_eq_None_iff map_of_Some_key
        split: option.splits)

text \<open>
  C2. For every document and every optional upsert key name, \<^verbatim>\<open>upsert_document\<close> issues a
  conditional update-with-upsert matching \<open>{key: value}\<close> and reports \<^verbatim>\<open>"upserted"\<close> if and
  only if the key name is provided, is a field of the document, and that field is not null;
  in every other case it issues an unconditional insert of the document and reports
  \<^verbatim>\<open>"inserted"\<close>. The outcome is reported when the store's write returns; an exception of
  the write is raised on.
\<close>

theorem upsert_document_decision:
  "(spec_key_usable upsert_key doc \<longrightarrow>
      (\<exists>k v. upsert_key = Some k \<and> map_of doc k = Some v \<and>
         upsert_document w (Some c) doc upsert_key s =
           (case mongo_write w (n_write s) of None \<Rightarrow> Inr ''upserted'' | Some e \<Rightarrow> Inl e,
            (emit (Store c (Update_one [(k, v)] [(''$set'', JObj doc)] True)) s)
              \<lparr>n_write := Suc (n_write s)\<rparr>)))
   \<and> (\<not> spec_key_usable upsert_key doc \<longrightarrow>
         upsert_document w (Some c) doc upsert_key s =
           (case mongo_write w (n_write s) of None \<Rightarrow> Inr ''inserted'' | Some e \<Rightarrow> Inl e,
            (emit (Store c (Insert_one doc)) s)\<lparr>n_write := Suc (n_write s)\<rparr>))
   \<and> (fst (upsert_document w (Some c) doc upsert_key s) = Inr ''upserted'' \<longleftrightarrow>
         spec_key_usable upsert_key doc \<and> mongo_write w (n_write s) = None)
   \<and> (fst (upsert_document w (Some c) doc upsert_key s) = Inr ''inserted'' \<longleftrightarrow>
         \<not> spec_key_usable upsert_key doc \<and> mongo_write w (n_write s) = None)"
  by (auto simp: upsert_document_def upsert_target_def spec_key_usable_def coll_write_def
        map_of_eq_None_iff map_of_Some_key split: option.splits)

theorem upsert_document_decision_witness:
  "spec_key_usable (Some ''indicator'') [(''ip'', JStr ''1.2.3.4''), (''indicator'', JStr ''1.2.3.4'')]
   \<and> upsert_document \<lparr>environ = Map.empty, http_results = (\<lambda>k. Inl JSONDecodeError),
         clock = (\<lambda>k. []), mongo_connect = None, mongo_create_index = None,
         mongo_write = (\<lambda>k. None), files = (\<lambda>p. Inr []), os_sleep = (\<lambda>d. None)\<rparr>
       (Some (Collection ''otx'' ''otx_ipv4_raw''))
       [(''ip'', JStr ''1.2.3.4''), (''indicator'', JStr ''1.2.3.4'')] (Some ''indicator'') initial
     = (Inr ''upserted'',
        \<lparr>trace = [Store (Collection ''otx'' ''otx_ipv4_raw'')
                    (Update_one [(''indicator'', JStr ''1.2.3.4'')]
                       [(''$set'', JObj [(''ip'', JStr ''1.2.3.4''), (''indicator'', JStr ''1.2.3.4'')])]
                       True)],
         n_get = 0, n_now = 0, n_write = 1\<rparr>)
   \<and> \<not> spec_key_usable (Some ''indicator'') [(''ip'', JStr ''1.2.3.4''), (''indicator'', JNull)]
   \<and> upsert_document \<lparr>environ = Map.empty, http_results = (\<lambda>k. Inl JSONDecodeError),
         clock = (\<lambda>k. []), mongo_connect = None, mongo_create_index = None,
         mongo_write = (\<lambda>k. None), files = (\<lambda>p. Inr []), os_sleep = (\<lambda>d. None)\<rparr>
       (Some (Collection ''otx'' ''otx_ipv4_raw''))
       [(''ip'', JStr ''1.2.3.4''), (''indicator'', JNull)] (Some ''indicator'') initial
     = (Inr ''inserted'',
        \<lparr>trace = [Store (Collection ''otx'' ''otx_ipv4_raw'')
                    (Insert_one [(''ip'', JStr ''1.2.3.4''), (''indicator'', JNull)])],
         n_get = 0, n_now = 0, n_write = 1\<rparr>)"
proof -
  let ?w = "\<lparr>environ = Map.empty, http_results = (\<lambda>k. Inl JSONDecodeError),
         clock = (\<lambda>k. []), mongo_connect = None, mongo_create_index = None,
         mongo_write = (\<lambda>k. None), files = (\<lambda>p. Inr []), os_sleep = (\<lambda>d. None)\<rparr>"
  let ?c = "Collection ''otx'' ''otx_ipv4_raw''"
  have a: "spec_key_usable (Some ''indicator'') [(''ip'', JStr ''1.2.3.4''), (''indicator'', JStr ''1.2.3.4'')]"
    by (simp add: spec_key_usable_def)
  have b: "\<not> spec_key_usable (Some ''indicator'') [(''ip'', JStr ''1.2.3.4''), (''indicator'', JNull)]"
    by (simp add: spec_key_usable_def)
  show ?thesis
    using a b
      upsert_document_decision [of "Some ''indicator''" "[(''ip'', JStr ''1.2.3.4''), (''indicator'', JStr ''1.2.3.4'')]" ?w ?c initial]
      upsert_document_decision [of "Some ''indicator''" "[(''ip'', JStr ''1.2.3.4''), (''indicator'', JNull)]" ?w ?c initial]
    by (simp add: initial_def emit_def)
qed

subsection \<open>Fetcher\<close>

lemma sleeps_append: "sleeps (xs @ ys) = sleeps xs @ sleeps ys"
  by (induction xs rule: sleeps.induct) simp_all

lemma time_sleep_accepted:
  "sleep_accepts w d \<Longrightarrow> time_sleep w d s = (Inr (), s\<lparr>trace := trace s @ [Sleep d]\<rparr>)"
  by (simp add: sleep_accepts_def time_sleep_def emit_def)

text \<open>
  C1. The claim: called with \<^verbatim>\<open>max_retries=3\<close>, when the first two attempts are answered with
  HTTP 429 and the third with a 2xx response whose body is valid JSON, \<^verbatim>\<open>fetch_otx_general\<close>
  returns the payload of the third attempt, and exactly two backoff sleeps occur, of
  \<open>backoff * 1\<close> and \<open>backoff * 2\<close> seconds. The sleeps are calls of \<^verbatim>\<open>time.sleep\<close>, which
  raises on a duration it does not accept, and the function raises with it. What holds: the
  claim, for a backoff whose two durations \<open>backoff * 1\<close> and \<open>backoff * 2\<close> \<^verbatim>\<open>time.sleep\<close>
  accepts.
\<close>

theorem fetch_after_two_rate_limits:
  assumes "sleep_accepts w (backoff * 1)" and "sleep_accepts w (backoff * 2)"
    and "http_results w (n_get s) = Inr r1" and "status_code r1 = 429"
    and "http_results w (n_get s + 1) = Inr r2" and "status_code r2 = 429"
    and "http_results w (n_get s + 2) = Inr r3"
    and "200 \<le> status_code r3" and "status_code r3 < 300" and "json_body r3 = Some payload"
  shows "fetch_otx_general w ip headers timeout 3 backoff s =
           (Inr payload,
            s\<lparr>trace := trace s @
                 [Http_get (OTX_URL ip) headers timeout,
                  Warn_rate_limited 1 (backoff * 1), Sleep (backoff * 1),
                  Http_get (OTX_URL ip) headers timeout,
                  Warn_rate_limited 2 (backoff * 2), Sleep (backoff * 2),
                  Http_get (OTX_URL ip) headers timeout],
              n_get := n_get s + 3\<rparr>)
         \<and> sleeps (trace (snd (fetch_otx_general w ip headers timeout 3 backoff s))) =
             sleeps (trace s) @ [backoff * 1, backoff * 2]"
proof -
  have u: "[1..3::int] = [1, 2, 3]" by (simp add: upto_rec1)
  have 1: "fetch_otx_general w ip headers timeout 3 backoff s =
           (Inr payload,
            s\<lparr>trace := trace s @
                 [Http_get (OTX_URL ip) headers timeout,
                  Warn_rate_limited 1 (backoff * 1), Sleep (backoff * 1),
                  Http_get (OTX_URL ip) headers timeout,
                  Warn_rate_limited 2 (backoff * 2), Sleep (backoff * 2),
                  Http_get (OTX_URL ip) headers timeout],
              n_get := n_get s + 3\<rparr>)"
    using assms(3-)
    by (simp add: fetch_otx_general_def u try_body_def requests_get_def emit_def
          time_sleep_accepted[OF assms(1), simplified] time_sleep_accepted[OF assms(2)]
          raise_for_status_def resp_json_def Let_def)
  show ?thesis unfolding 1 by (simp add: sleeps_append)
qed

theorem fetch_after_two_rate_limits_witness:
  "sleep_accepts
      (world_with (\<lambda>k. if k < 2 then Inr \<lparr>status_code = 429, json_body = None\<rparr>
                          else Inr \<lparr>status_code = 200, json_body = Some (JObj [(''indicator'', JStr ''8.8.8.8'')])\<rparr>))
      (2 * 1)
   \<and> sleep_accepts
      (world_with (\<lambda>k. if k < 2 then Inr \<lparr>status_code = 429, json_body = None\<rparr>
                          else Inr \<lparr>status_code = 200, json_body = Some (JObj [(''indicator'', JStr ''8.8.8.8'')])\<rparr>))
      (2 * 2)
   \<and> status_code \<lparr>status_code = 429, json_body = None\<rparr> = 429
   \<and> fetch_otx_general
        (world_with (\<lambda>k. if k < 2 then Inr \<lparr>status_code = 429, json_body = None\<rparr>
                          else Inr \<lparr>status_code = 200, json_body = Some (JObj [(''indicator'', JStr ''8.8.8.8'')])\<rparr>))
        ''8.8.8.8'' [] 20 3 2 initial
      = (Inr (JObj [(''indicator'', JStr ''8.8.8.8'')]),
         \<lparr>trace = [Http_get (OTX_URL ''8.8.8.8'') [] 20, Warn_rate_limited 1 2, Sleep 2,
                   Http_get (OTX_URL ''8.8.8.8'') [] 20, Warn_rate_limited 2 4, Sleep 4,
                   Http_get (OTX_URL ''8.8.8.8'') [] 20],
          n_get = 3, n_now = 0, n_write = 0\<rparr>)
   \<and> sleeps (trace (snd (fetch_otx_general
        (world_with (\<lambda>k. if k < 2 then Inr \<lparr>status_code = 429, json_body = None\<rparr>
                          else Inr \<lparr>status_code = 200, json_body = Some (JObj [(''indicator'', JStr ''8.8.8.8'')])\<rparr>))
        ''8.8.8.8'' [] 20 3 2 initial))) = [2, 4]"
proof -
  let ?w = "world_with (\<lambda>k. if k < 2 then Inr \<lparr>status_code = 429, json_body = None\<rparr>
                          else Inr \<lparr>status_code = 200, json_body = Some (JObj [(''indicator'', JStr ''8.8.8.8'')])\<rparr>)"
  have a: "sleep_accepts ?w (2 * 1)" and b: "sleep_accepts ?w (2 * 2)"
    by (simp_all add: sleep_accepts_def world_with_def)
  show ?thesis
    using a b fetch_after_two_rate_limits
      [OF a b, of initial "\<lparr>status_code = 429, json_body = None\<rparr>" "\<lparr>status_code = 429, json_body = None\<rparr>"
        "\<lparr>status_code = 200, json_body = Some (JObj [(''indicator'', JStr ''8.8.8.8'')])\<rparr>"
        "JObj [(''indicator'', JStr ''8.8.8.8'')]" "''8.8.8.8''" "[]" 20]
    by (simp add: world_with_def initial_def)
qed

text \<open>
  C1 at a concrete input: the same three answers with \<^verbatim>\<open>backoff=-1\<close>. The first sleep raises
  \<^verbatim>\<open>ValueError\<close>, which the \<^verbatim>\<open>except\<close> clause does not catch: no payload is returned, one
  request is made and no sleep occurs.
\<close>

theorem fetch_after_two_rate_limits_negative_backoff:
  "fetch_otx_general
        (world_with (\<lambda>k. if k < 2 then Inr \<lparr>status_code = 429, json_body = None\<rparr>
                          else Inr \<lparr>status_code = 200, json_body = Some (JObj [(''indicator'', JStr ''8.8.8.8'')])\<rparr>))
        ''8.8.8.8'' [] 20 3 (- 1) initial
      = (Inl (ValueError ''sleep length must be non-negative''),
         \<lparr>trace = [Http_get (OTX_URL ''8.8.8.8'') [] 20, Warn_rate_limited 1 (- 1)],
          n_get = 1, n_now = 0, n_write = 0\<rparr>)
   \<and> sleeps (trace (snd (fetch_otx_general
        (world_with (\<lambda>k. if k < 2 then Inr \<lparr>status_code = 429, json_body = None\<rparr>
                          else Inr \<lparr>status_code = 200, json_body = Some (JObj [(''indicator'', JStr ''8.8.8.8'')])\<rparr>))
        ''8.8.8.8'' [] 20 3 (- 1) initial))) = []"
  by (simp add: fetch_otx_general_def try_body_def requests_get_def emit_def time_sleep_def
        world_with_def initial_def upto_rec1)

lemma try_body_failure:
  assumes "attempt_failure (http_results w (n_get s)) = Some e"
  shows "try_body w url headers timeout backoff attempt s =
           (Raise e, s\<lparr>trace := trace s @ [Http_get url headers timeout], n_get := Suc (n_get s)\<rparr>)"
    and "caught_by_fetch e"
  using assms
  by (auto simp: attempt_failure_def try_body_def requests_get_def emit_def raise_for_status_def
        resp_json_def split: sum.splits exn.splits if_splits option.splits)

lemma fetch_attempts_all_fail:
  assumes "1 \<le> a" and "a \<le> N"
    and "n_get s = c + nat (a - 1)"
    and "\<forall>k < nat N. attempt_failure (http_results w (c + k)) \<noteq> None"
    and "\<forall>i. a \<le> i \<and> i < N \<longrightarrow> sleep_accepts w (backoff * i)"
  shows "\<exists>s'. fetch_attempts w ip (OTX_URL ip) headers timeout N backoff [a..N] s =
            (Inl (the (attempt_failure (http_results w (c + nat (N - 1))))), s')
          \<and> n_get s' = c + nat N \<and> n_now s' = n_now s \<and> n_write s' = n_write s
          \<and> trace s' = trace s @
              concat (map (failed_attempt_events w c ip headers timeout N backoff) [a..N])
          \<and> filter is_request (trace s') =
              filter is_request (trace s) @
              replicate (nat (N - a + 1)) (Http_get (OTX_URL ip) headers timeout)
          \<and> sleeps (trace s') = sleeps (trace s) @ map (\<lambda>i. backoff * i) [a..N - 1]"
  using assms
proof (induction "nat (N - a)" arbitrary: a s)
  case 0
  then have aN: "a = N" by simp
  have "nat (N - 1) < nat N" using 0 by simp
  with 0 have "attempt_failure (http_results w (c + nat (N - 1))) \<noteq> None" by blast
  then obtain e where e: "attempt_failure (http_results w (c + nat (N - 1))) = Some e" by auto
  have e': "attempt_failure (http_results w (n_get s)) = Some e" using e 0 by (simp add: aN)
  have l: "[a..N] = [N]" by (simp add: aN)
  have sn: "Suc (nat (N - 1)) = nat N" using "0.prems"(1) aN by simp
  show ?case
    unfolding l using try_body_failure[OF e'] "0.prems"(3)
    by (simp add: aN e sn sleeps_append failed_attempt_events_def)
next
  case (Suc n)
  then have lt: "a < N" by linarith
  have "nat (a - 1) < nat N" using lt Suc.prems(1) by simp
  with Suc.prems(4) have "attempt_failure (http_results w (c + nat (a - 1))) \<noteq> None" by blast
  then obtain e where e: "attempt_failure (http_results w (c + nat (a - 1))) = Some e" by auto
  have e': "attempt_failure (http_results w (n_get s)) = Some e" using e Suc.prems(3) by simp
  let ?s1 = "s\<lparr>trace := trace s @ [Http_get (OTX_URL ip) headers timeout], n_get := Suc (n_get s)\<rparr>"
  let ?s3 = "?s1\<lparr>trace := trace ?s1 @ [Warn_retry ip a N e (backoff * a), Sleep (backoff * a)]\<rparr>"
  have acc: "sleep_accepts w (backoff * a)" using Suc.prems(5) lt by simp
  have l: "[a..N] = a # [a + 1..N]" using lt by (simp add: upto_rec1)
  have step: "fetch_attempts w ip (OTX_URL ip) headers timeout N backoff [a..N] s =
                fetch_attempts w ip (OTX_URL ip) headers timeout N backoff [a + 1..N] ?s3"
    unfolding l
    using try_body_failure(1)[OF e', of "OTX_URL ip" headers timeout backoff a]
          try_body_failure(2)[OF e'] lt
    by (simp add: time_sleep_accepted[OF acc] emit_def Let_def)
  have n: "n = nat (N - (a + 1))" using Suc.hyps(2) by linarith
  have g: "n_get ?s3 = c + nat (a + 1 - 1)" using Suc.prems(1,3) by simp
  have sl: "\<forall>i. a + 1 \<le> i \<and> i < N \<longrightarrow> sleep_accepts w (backoff * i)"
    using Suc.prems(5) by simp
  obtain s' where s': "fetch_attempts w ip (OTX_URL ip) headers timeout N backoff [a + 1..N] ?s3 =
            (Inl (the (attempt_failure (http_results w (c + nat (N - 1))))), s')"
          "n_get s' = c + nat N" "n_now s' = n_now ?s3" "n_write s' = n_write ?s3"
          "trace s' = trace ?s3 @
              concat (map (failed_attempt_events w c ip headers timeout N backoff) [a + 1..N])"
          "filter is_request (trace s') =
              filter is_request (trace ?s3) @
              replicate (nat (N - (a + 1) + 1)) (Http_get (OTX_URL ip) headers timeout)"
          "sleeps (trace s') = sleeps (trace ?s3) @ map (\<lambda>i. backoff * i) [a + 1..N - 1]"
    using Suc.hyps(1)[OF n _ _ g Suc.prems(4) sl] Suc.prems(1) lt by auto
  have cnt: "nat (N - a + 1) = Suc (nat (N - (a + 1) + 1))" using lt by linarith
  have l2: "[a..N - 1] = a # [a + 1..N - 1]" using lt by (simp add: upto_rec1)
  have ev: "failed_attempt_events w c ip headers timeout N backoff a =
              [Http_get (OTX_URL ip) headers timeout, Warn_retry ip a N e (backoff * a),
               Sleep (backoff * a)]"
    using lt e by (simp add: failed_attempt_events_def)
  show ?case
    unfolding step
    using s' by (simp add: cnt l l2 sleeps_append ev)
qed

text \<open>
  C3. The claim: called with \<^verbatim>\<open>max_retries=N\<close>, \<open>N \<ge> 1\<close>, when every attempt fails at the
  transport level or with a body that is not JSON, \<^verbatim>\<open>fetch_otx_general\<close> makes exactly \<open>N\<close>
  request attempts and raises the failure of the last one, with a sleep of
  \<open>backoff * attempt\<close> seconds after each failed attempt but the last. A sleep that
  \<^verbatim>\<open>time.sleep\<close> does not accept raises instead, and ends the attempts. What holds: the claim
  (also for an attempt failing with an error status other than 429), for a backoff whose
  durations \<open>backoff * attempt\<close>, for the attempts 1 to \<open>N - 1\<close>, \<^verbatim>\<open>time.sleep\<close> accepts. The
  trace is then, attempt after attempt, the request followed, for every attempt but the
  last, by its warning and its sleep.
\<close>

theorem fetch_all_attempts_fail:
  assumes "1 \<le> N"
    and "\<forall>k < nat N. attempt_failure (http_results w (n_get s + k)) \<noteq> None"
    and "\<forall>attempt. 1 \<le> attempt \<and> attempt < N \<longrightarrow> sleep_accepts w (backoff * attempt)"
  shows "\<exists>e s'. fetch_otx_general w ip headers timeout N backoff s = (Inl e, s')
           \<and> attempt_failure (http_results w (n_get s + (nat N - 1))) = Some e
           \<and> n_get s' = n_get s + nat N \<and> n_now s' = n_now s \<and> n_write s' = n_write s
           \<and> trace s' = trace s @
               concat (map (failed_attempt_events w (n_get s) ip headers timeout N backoff) [1..N])
           \<and> filter is_request (trace s') =
               filter is_request (trace s) @ replicate (nat N) (Http_get (OTX_URL ip) headers timeout)
           \<and> sleeps (trace s') = sleeps (trace s) @ map (\<lambda>attempt. backoff * attempt) [1..N - 1]"
proof -
  obtain s' where s': "fetch_attempts w ip (OTX_URL ip) headers timeout N backoff [1..N] s =
            (Inl (the (attempt_failure (http_results w (n_get s + nat (N - 1))))), s')"
      "n_get s' = n_get s + nat N" "n_now s' = n_now s" "n_write s' = n_write s"
      "trace s' = trace s @
         concat (map (failed_attempt_events w (n_get s) ip headers timeout N backoff) [1..N])"
      "filter is_request (trace s') =
         filter is_request (trace s) @ replicate (nat (N - 1 + 1)) (Http_get (OTX_URL ip) headers timeout)"
      "sleeps (trace s') = sleeps (trace s) @ map (\<lambda>i. backoff * i) [1..N - 1]"
    using fetch_attempts_all_fail[OF _ assms(1) _ assms(2) assms(3), of s ip headers timeout] by auto
  have "nat (N - 1) < nat N" using assms(1) by simp
  with assms(2) have "attempt_failure (http_results w (n_get s + nat (N - 1))) \<noteq> None" by blast
  then obtain e where e: "attempt_failure (http_results w (n_get s + nat (N - 1))) = Some e" by auto
  have m: "nat N - Suc 0 = nat (N - 1)" using assms(1) by simp
  show ?thesis
    using s' e by (simp add: fetch_otx_general_def m)
qed

theorem fetch_all_attempts_fail_witness:
  "(1::int) \<le> 2
   \<and> attempt_failure (http_results (world_with (\<lambda>k. if k = 0 then Inl (RequestException ''timed out'')
                          else Inr \<lparr>status_code = 200, json_body = None\<rparr>)) 0)
       = Some (RequestException ''timed out'')
   \<and> attempt_failure (http_results (world_with (\<lambda>k. if k = 0 then Inl (RequestException ''timed out'')
                          else Inr \<lparr>status_code = 200, json_body = None\<rparr>)) 1)
       = Some JSONDecodeError
   \<and> sleep_accepts (world_with (\<lambda>k. if k = 0 then Inl (RequestException ''timed out'')
                          else Inr \<lparr>status_code = 200, json_body = None\<rparr>)) (5 * 1)
   \<and> fst (fetch_otx_general
        (world_with (\<lambda>k. if k = 0 then Inl (RequestException ''timed out'')
                          else Inr \<lparr>status_code = 200, json_body = None\<rparr>))
        ''8.8.8.8'' [] 20 2 5 initial) = Inl JSONDecodeError
   \<and> n_get (snd (fetch_otx_general
        (world_with (\<lambda>k. if k = 0 then Inl (RequestException ''timed out'')
                          else Inr \<lparr>status_code = 200, json_body = None\<rparr>))
        ''8.8.8.8'' [] 20 2 5 initial)) = 2
   \<and> trace (snd (fetch_otx_general
        (world_with (\<lambda>k. if k = 0 then Inl (RequestException ''timed out'')
                          else Inr \<lparr>status_code = 200, json_body = None\<rparr>))
        ''8.8.8.8'' [] 20 2 5 initial))
       = [Http_get (OTX_URL ''8.8.8.8'') [] 20,
          Warn_retry ''8.8.8.8'' 1 2 (RequestException ''timed out'') 5, Sleep 5,
          Http_get (OTX_URL ''8.8.8.8'') [] 20]
   \<and> sleeps (trace (snd (fetch_otx_general
        (world_with (\<lambda>k. if k = 0 then Inl (RequestException ''timed out'')
                          else Inr \<lparr>status_code = 200, json_body = None\<rparr>))
        ''8.8.8.8'' [] 20 2 5 initial))) = [5]"
proof -
  let ?w = "world_with (\<lambda>k. if k = 0 then Inl (RequestException ''timed out'')
                          else Inr \<lparr>status_code = 200, json_body = None\<rparr>)"
  have a: "attempt_failure (http_results ?w 0) = Some (RequestException ''timed out'')"
    by (simp add: attempt_failure_def world_with_def)
  have b: "attempt_failure (http_results ?w 1) = Some JSONDecodeError"
    by (simp add: attempt_failure_def world_with_def)
  have c: "\<forall>k < nat 2. attempt_failure (http_results ?w (n_get initial + k)) \<noteq> None"
    by (simp add: attempt_failure_def world_with_def)
  have d: "sleep_accepts ?w (5 * 1)" by (simp add: sleep_accepts_def world_with_def)
  have d': "\<forall>attempt. 1 \<le> attempt \<and> attempt < 2 \<longrightarrow> sleep_accepts ?w (5 * attempt)"
    by (auto simp: sleep_accepts_def world_with_def)
  have u: "[1..2::int] = [1, 2]" "[1..1::int] = [1]" by (simp_all add: upto_rec1)
  show ?thesis
    using fetch_all_attempts_fail [of 2 ?w initial 5 "''8.8.8.8''" "[]" 20, OF _ c d'] a b d
    by (auto simp: initial_def u failed_attempt_events_def)
qed

text \<open>
  C3 at a concrete input: every request times out, \<^verbatim>\<open>max_retries=2\<close> and \<^verbatim>\<open>backoff=-1\<close>. The
  sleep after the first attempt raises \<^verbatim>\<open>ValueError\<close>: one request is made, not two, and the
  exception raised is not the failure of an attempt.
\<close>

theorem fetch_all_attempts_fail_negative_backoff:
  "fetch_otx_general (world_with (\<lambda>k. Inl (RequestException ''timed out'')))
       ''8.8.8.8'' [] 20 2 (- 1) initial
     = (Inl (ValueError ''sleep length must be non-negative''),
        \<lparr>trace = [Http_get (OTX_URL ''8.8.8.8'') [] 20,
                  Warn_retry ''8.8.8.8'' 1 2 (RequestException ''timed out'') (- 1)],
         n_get = 1, n_now = 0, n_write = 0\<rparr>)"
  by (simp add: fetch_otx_general_def try_body_def requests_get_def emit_def time_sleep_def
        world_with_def initial_def upto_rec1)

text \<open>
  C4. The claim is that with \<^verbatim>\<open>max_retries >= 1\<close> the statement after the loop, commented
  \<^verbatim>\<open># Should not reach here\<close>, is never reached. It is reached when the last attempt is
  answered with HTTP 429: the rate-limit branch sleeps and continues, there is no attempt
  left, and the loop ends. With \<^verbatim>\<open>max_retries=1\<close> and one 429 the function sleeps and raises
  \<^verbatim>\<open>RuntimeError("Exhausted retries unexpectedly")\<close>.
\<close>

theorem fetch_rate_limited_on_final_attempt:
  "fetch_otx_general (world_with (\<lambda>k. Inr \<lparr>status_code = 429, json_body = None\<rparr>))
       ''8.8.8.8'' [] 20 1 2 initial
     = (Inl (RuntimeError ''Exhausted retries unexpectedly''),
        \<lparr>trace = [Http_get (OTX_URL ''8.8.8.8'') [] 20, Warn_rate_limited 1 2, Sleep 2],
         n_get = 1, n_now = 0, n_write = 0\<rparr>)"
  by (simp add: fetch_otx_general_def try_body_def requests_get_def emit_def time_sleep_def
        world_with_def initial_def upto_rec1)

subsection \<open>Orchestrator\<close>

lemma map_filter_append: "List.map_filter f (xs @ ys) = List.map_filter f xs @ List.map_filter f ys"
  by (simp add: map_filter_def)

lemma fetch_event_silent:
  "is_fetch_event ev \<Longrightarrow>
     settled ev = None \<and> failed_address ev = None \<and> printed_doc ev = None \<and> \<not> is_store_event ev"
  by (cases ev) simp_all

lemma fetch_events_silent:
  assumes "list_all is_fetch_event evs"
  shows "List.map_filter settled evs = []" and "List.map_filter failed_address evs = []"
    and "List.map_filter printed_doc evs = []" and "filter is_store_event evs = []"
  using assms by (induction evs) (simp_all add: map_filter_simps fetch_event_silent)

lemma store_event_silent:
  "is_store_event ev \<Longrightarrow>
     settled ev = None \<and> failed_address ev = None \<and> printed_doc ev = None"
  by (cases ev) simp_all

lemma store_events_silent:
  assumes "list_all is_store_event evs"
  shows "List.map_filter settled evs = []" and "List.map_filter failed_address evs = []"
    and "List.map_filter printed_doc evs = []"
  using assms by (induction evs) (simp_all add: map_filter_simps store_event_silent)

lemma try_body_events:
  "\<exists>evs. trace (snd (try_body w url headers timeout backoff attempt s)) = trace s @ evs
         \<and> list_all is_fetch_event evs"
  by (auto simp: try_body_def requests_get_def emit_def time_sleep_def Let_def
        split: sum.splits prod.splits option.splits)

lemma fetch_attempts_events:
  "\<exists>evs. trace (snd (fetch_attempts w ip url headers timeout max_retries backoff attempts s)) =
            trace s @ evs \<and> list_all is_fetch_event evs"
proof (induction attempts arbitrary: s)
  case Nil
  show ?case by simp
next
  case (Cons a attempts)
  obtain c s1 where b: "try_body w url headers timeout backoff a s = (c, s1)" by fastforce
  obtain evs1 where e1: "trace s1 = trace s @ evs1" "list_all is_fetch_event evs1"
    using try_body_events[of w url headers timeout backoff a s] b by auto
  let ?s3 = "emit (Sleep (backoff * a)) (emit (Warn_retry ip a max_retries (case c of Raise e \<Rightarrow> e | _ \<Rightarrow> JSONDecodeError) (backoff * a)) s1)"
  obtain evs2 where e2: "trace (snd (fetch_attempts w ip url headers timeout max_retries backoff attempts s1)) =
            trace s1 @ evs2" "list_all is_fetch_event evs2"
    using Cons.IH[of s1] by auto
  obtain evs3 where e3: "trace (snd (fetch_attempts w ip url headers timeout max_retries backoff attempts ?s3)) =
            trace ?s3 @ evs3" "list_all is_fetch_event evs3"
    using Cons.IH[of ?s3] by auto
  show ?case
    using b e1 e2 e3
    by (cases c) (auto simp: time_sleep_def emit_def Let_def split: option.splits)
qed

lemma fetch_events:
  "\<exists>evs. trace (snd (fetch_otx_general w ip headers timeout max_retries backoff s)) = trace s @ evs
         \<and> list_all is_fetch_event evs"
  unfolding fetch_otx_general_def by (rule fetch_attempts_events)

lemma transform_trace: "trace (snd (transform w ip payload s)) = trace s"
  by (simp add: transform_def datetime_now_def)

lemma transform_doc:
  assumes "fst (transform w ip payload s) = Inr doc"
  shows "map fst doc = record_keys" and "map_of doc ''ip'' = Some (JStr ip)"
  using assms
  by (auto simp: transform_def datetime_now_def exn_bind_def record_keys_def split: sum.splits)

lemma upsert_document_events:
  "\<exists>evs. trace (snd (upsert_document w coll doc upsert_key s)) = trace s @ evs
         \<and> list_all is_store_event evs"
  by (auto simp: upsert_document_def coll_write_def emit_def split: option.splits prod.splits sum.splits)


lemma address_step:
  "\<exists>evs. trace (after_address w h t m b c d k ip s) = trace s @ evs
     \<and> List.map_filter settled evs = [ip]
     \<and> List.map_filter failed_address evs = (if address_ok w h t m b c d k ip s then [] else [ip])
     \<and> (d \<longrightarrow> filter is_store_event evs = []
           \<and> (if address_ok w h t m b c d k ip s
               then \<exists>doc. List.map_filter printed_doc evs = [doc] \<and> map fst doc = record_keys
                      \<and> map_of doc ''ip'' = Some (JStr ip)
               else List.map_filter printed_doc evs = []))"
proof -
  obtain r1 s1 where f: "fetch_otx_general w ip h t m b s = (r1, s1)" by fastforce
  obtain evs where evs: "trace s1 = trace s @ evs" "list_all is_fetch_event evs"
    using fetch_events[of w ip h t m b s] f by auto
  note sil = fetch_events_silent[OF evs(2)]
  show ?thesis
  proof (cases r1)
    case (Inl e)
    show ?thesis
      by (rule exI[of _ "evs @ [Error_failed ip e]"])
         (simp add: after_address_def address_ok_def try_ip_def f Inl emit_def evs(1)
            map_filter_append sil map_filter_simps)
  next
    case (Inr p)
    obtain r2 s2 where tr: "transform w ip p s1 = (r2, s2)" by fastforce
    have t2: "trace s2 = trace s1" using transform_trace[of w ip p s1] tr by simp
    show ?thesis
    proof (cases r2)
      case (Inl e)
      show ?thesis
        by (rule exI[of _ "evs @ [Error_failed ip e]"])
           (simp add: after_address_def address_ok_def try_ip_def f Inr tr Inl emit_def evs(1) t2
              map_filter_append sil map_filter_simps)
    next
      case doc: (Inr doc)
      have keys: "map fst doc = record_keys" and ipf: "map_of doc ''ip'' = Some (JStr ip)"
        using transform_doc[of w ip p s1 doc] tr doc by simp_all
      show ?thesis
      proof (cases d)
        case True
        show ?thesis
          by (rule exI[of _ "evs @ [Print_doc doc]"])
             (simp add: after_address_def address_ok_def try_ip_def f Inr tr doc True emit_def
                evs(1) t2 map_filter_append sil map_filter_simps keys ipf)
      next
        case False
        obtain r3 s3 where up: "upsert_document w c doc k s2 = (r3, s3)" by fastforce
        obtain evs3 where evs3: "trace s3 = trace s2 @ evs3" "list_all is_store_event evs3"
          using upsert_document_events[of w c doc k s2] up by auto
        note sil3 = store_events_silent[OF evs3(2)]
        show ?thesis
        proof (cases r3)
          case (Inl e)
          show ?thesis
            by (rule exI[of _ "evs @ evs3 @ [Error_failed ip e]"])
               (simp add: after_address_def address_ok_def try_ip_def f Inr tr doc False up Inl
                  emit_def evs(1) t2 evs3(1) map_filter_append sil sil3 map_filter_simps)
        next
          case st: (Inr st)
          show ?thesis
            by (rule exI[of _ "evs @ evs3 @ [Info_status ip st]"])
               (simp add: after_address_def address_ok_def try_ip_def f Inr tr doc False up st
                  emit_def evs(1) t2 evs3(1) map_filter_append sil sil3 map_filter_simps)
        qed
      qed
    qed
  qed
qed

lemma run_loop_Cons:
  "run_loop w h t m b c d k (ip # rest) n s =
     run_loop w h t m b c d k rest (if address_ok w h t m b c d k ip s then n + 1 else n)
       (after_address w h t m b c d k ip s)"
  by (simp add: address_ok_def after_address_def split: prod.splits sum.splits)

lemma run_loop_count:
  "fst (run_loop w h t m b c d k ips n s) =
     n + int (length (filter id (address_outcomes w h t m b c d k ips s)))"
proof (induction ips arbitrary: n s)
  case Nil
  show ?case by simp
next
  case (Cons ip rest)
  show ?case unfolding run_loop_Cons by (simp add: Cons.IH)
qed

lemma address_outcomes_length: "length (address_outcomes w h t m b c d k ips s) = length ips"
  by (induction ips arbitrary: s) simp_all

lemma run_loop_settled:
  "List.map_filter settled (trace (snd (run_loop w h t m b c d k ips n s))) =
     List.map_filter settled (trace s) @ ips"
proof (induction ips arbitrary: n s)
  case Nil
  show ?case by simp
next
  case (Cons ip rest)
  obtain evs where "trace (after_address w h t m b c d k ip s) = trace s @ evs"
      "List.map_filter settled evs = [ip]"
    using address_step[of w h t m b c d k ip s] by auto
  then show ?case unfolding run_loop_Cons by (simp add: Cons.IH map_filter_append)
qed

lemma run_loop_failed:
  "List.map_filter failed_address (trace (snd (run_loop w h t m b c d k ips n s))) =
     List.map_filter failed_address (trace s) @ failed_of ips (address_outcomes w h t m b c d k ips s)"
proof (induction ips arbitrary: n s)
  case Nil
  show ?case by (simp add: failed_of_def)
next
  case (Cons ip rest)
  obtain evs where "trace (after_address w h t m b c d k ip s) = trace s @ evs"
      "List.map_filter failed_address evs = (if address_ok w h t m b c d k ip s then [] else [ip])"
    using address_step[of w h t m b c d k ip s] by auto
  then show ?case unfolding run_loop_Cons by (simp add: Cons.IH map_filter_append failed_of_def)
qed

lemma run_loop_dry_store:
  "filter is_store_event (trace (snd (run_loop w h t m b c True k ips n s))) =
     filter is_store_event (trace s)"
proof (induction ips arbitrary: n s)
  case Nil
  show ?case by simp
next
  case (Cons ip rest)
  obtain evs where "trace (after_address w h t m b c True k ip s) = trace s @ evs"
      "filter is_store_event evs = []"
    using address_step[of w h t m b c True k ip s] by auto
  then show ?case unfolding run_loop_Cons by (simp add: Cons.IH)
qed


lemma all_ok_iff:
  "int (length (filter id os)) = int (length os) \<longleftrightarrow> list_all id os"
proof -
  have "length (filter id os) + length (filter (\<lambda>x. \<not> id x) os) = length os"
    by (rule sum_length_filter_compl)
  then have "length (filter id os) = length os \<longleftrightarrow> length (filter (\<lambda>x. \<not> id x) os) = 0"
    by linarith
  also have "\<dots> \<longleftrightarrow> list_all id os"
    by (simp add: filter_empty_conv list_all_iff)
  finally show ?thesis by simp
qed

lemma open_store_dry: "open_store w e True s = (Inr None, s)"
  by (simp add: open_store_def)

lemma open_store_code: "fst (open_store w e d s) = Inl code \<Longrightarrow> code = 2"
  by (auto simp: open_store_def split: if_splits prod.splits sum.splits)

lemma open_store_unreachable:
  "\<not> d \<Longrightarrow> mongo_connect w = Some ex \<Longrightarrow> fst (open_store w e d s) = Inl 2"
  by (simp add: open_store_def get_mongo_collection_def Let_def)

lemma open_store_silent:
  "List.map_filter settled (trace (snd (open_store w e d s))) = List.map_filter settled (trace s)"
  "List.map_filter failed_address (trace (snd (open_store w e d s))) =
     List.map_filter failed_address (trace s)"
  "List.map_filter printed_doc (trace (snd (open_store w e d s))) =
     List.map_filter printed_doc (trace s)"
  by (auto simp: open_store_def get_mongo_collection_def Let_def emit_def map_filter_append
        map_filter_simps split: option.splits)

lemma run_aborts_on_settings:
  "parse_settings (load_env w) = Inl ex \<Longrightarrow> run w ips d k s = (Inl ex, s)"
  by (simp add: run_def Let_def)

lemma run_aborts_on_store:
  assumes "parse_settings (load_env w) = Inr (t, m, b)"
    and "open_store w (load_env w) d s = (Inl code, s1)"
  shows "run w ips d k s = (Inr 2, s1)"
  using assms open_store_code[of w "load_env w" d s code] by (simp add: run_def Let_def)

lemma run_loops:
  assumes "parse_settings (load_env w) = Inr (t, m, b)"
    and "open_store w (load_env w) d s = (Inr c, s1)"
  shows "run w ips d k s =
           (Inr (if list_all id (address_outcomes w (make_headers (load_env w)) t m b c d k ips s1)
                 then 0 else 1),
            snd (run_loop w (make_headers (load_env w)) t m b c d k ips 0 s1))"
proof -
  let ?os = "address_outcomes w (make_headers (load_env w)) t m b c d k ips s1"
  have "fst (run_loop w (make_headers (load_env w)) t m b c d k ips 0 s1) = int (length ips)
          \<longleftrightarrow> list_all id ?os"
    using all_ok_iff[of ?os]
    by (simp add: run_loop_count address_outcomes_length)
  then show ?thesis
    using assms by (simp add: run_def Let_def split_beta)
qed

lemma example_settings: "parse_settings (load_env (world_with example_responses)) = Inr (20, 3, 2)"
  by code_simp

lemma example_open_store:
  "open_store (world_with example_responses) (load_env (world_with example_responses)) False initial =
     (Inr (Some (Collection ''otx'' ''otx_ipv4_raw'')), example_startup)"
  by code_simp

lemma example_outcomes:
  "address_outcomes (world_with example_responses)
     (make_headers (load_env (world_with example_responses))) 20 3 2
     (Some (Collection ''otx'' ''otx_ipv4_raw'')) False (Some ''indicator'')
     [''8.8.8.8'', ''1.1.1.1''] example_startup = [True, False]"
  by code_simp

lemma example_outcomes_dry:
  "address_outcomes (world_with example_responses)
     (make_headers (load_env (world_with example_responses))) 20 3 2
     None True (Some ''indicator'')
     [''8.8.8.8'', ''1.1.1.1''] initial = [True, False]"
  by code_simp

lemma example_ips:
  "iter_ips_from_args (files (world_with example_responses)) (arg_ips (example_args d))
     (arg_ips_file (example_args d)) = Inr [''8.8.8.8'', ''1.1.1.1'']"
  by code_simp

lemma address_ok_stages:
  "address_ok w h t m b c d k ip s0 \<longleftrightarrow>
     (\<exists>payload s1 doc s2.
        fetch_otx_general w ip h t m b s0 = (Inr payload, s1) \<and>
        transform w ip payload s1 = (Inr doc, s2) \<and>
        (d \<or> (\<exists>status s3. upsert_document w c doc k s2 = (Inr status, s3))))"
  by (auto simp: address_ok_def try_ip_def split: prod.splits sum.splits)

lemma after_address_stages:
  "after_address w h t m b c d k ip s0 =
     (case fetch_otx_general w ip h t m b s0 of
        (Inl e, s1) \<Rightarrow> emit (Error_failed ip e) s1
      | (Inr payload, s1) \<Rightarrow>
          (case transform w ip payload s1 of
             (Inl e, s2) \<Rightarrow> emit (Error_failed ip e) s2
           | (Inr doc, s2) \<Rightarrow>
               if d then emit (Print_doc doc) s2
               else (case upsert_document w c doc k s2 of
                       (Inl e, s3) \<Rightarrow> emit (Error_failed ip e) s3
                     | (Inr status, s3) \<Rightarrow> emit (Info_status ip status) s3)))"
  by (simp add: after_address_def try_ip_def split: prod.splits sum.splits)

lemma run_batch:
  "(\<forall>ex. parse_settings (load_env w) = Inl ex \<longrightarrow> run w ips d k s = (Inl ex, s))
   \<and> (\<forall>t m b code s1.
        parse_settings (load_env w) = Inr (t, m, b) \<and>
        open_store w (load_env w) d s = (Inl code, s1) \<longrightarrow>
          run w ips d k s = (Inr 2, s1)
          \<and> List.map_filter settled (trace s1) = List.map_filter settled (trace s))
   \<and> (\<forall>t m b c s1.
        parse_settings (load_env w) = Inr (t, m, b) \<and>
        open_store w (load_env w) d s = (Inr c, s1) \<longrightarrow>
          fst (run w ips d k s) =
            Inr (if list_all id (address_outcomes w (make_headers (load_env w)) t m b c d k ips s1)
                 then 0 else 1)
          \<and> length (address_outcomes w (make_headers (load_env w)) t m b c d k ips s1) = length ips
          \<and> List.map_filter settled (trace (snd (run w ips d k s))) =
              List.map_filter settled (trace s) @ ips
          \<and> List.map_filter failed_address (trace (snd (run w ips d k s))) =
              List.map_filter failed_address (trace s) @
              failed_of ips (address_outcomes w (make_headers (load_env w)) t m b c d k ips s1))"
proof (intro conjI allI impI)
  fix ex assume "parse_settings (load_env w) = Inl ex"
  then show "run w ips d k s = (Inl ex, s)" by (rule run_aborts_on_settings)
next
  fix t m b code s1
  assume a: "parse_settings (load_env w) = Inr (t, m, b) \<and>
        open_store w (load_env w) d s = (Inl code, s1)"
  then show "run w ips d k s = (Inr 2, s1)" using run_aborts_on_store by blast
  show "List.map_filter settled (trace s1) = List.map_filter settled (trace s)"
    using open_store_silent(1)[of w "load_env w" d s] a by simp
next
  fix t m b c s1
  assume a: "parse_settings (load_env w) = Inr (t, m, b) \<and>
        open_store w (load_env w) d s = (Inr c, s1)"
  then have r: "run w ips d k s =
           (Inr (if list_all id (address_outcomes w (make_headers (load_env w)) t m b c d k ips s1)
                 then 0 else 1),
            snd (run_loop w (make_headers (load_env w)) t m b c d k ips 0 s1))"
    using run_loops by blast
  have s1: "List.map_filter settled (trace s1) = List.map_filter settled (trace s)"
       "List.map_filter failed_address (trace s1) = List.map_filter failed_address (trace s)"
    using open_store_silent(1,2)[of w "load_env w" d s] a by simp_all
  show "fst (run w ips d k s) =
            Inr (if list_all id (address_outcomes w (make_headers (load_env w)) t m b c d k ips s1)
                 then 0 else 1)"
    by (simp add: r)
  show "length (address_outcomes w (make_headers (load_env w)) t m b c d k ips s1) = length ips"
    by (rule address_outcomes_length)
  show "List.map_filter settled (trace (snd (run w ips d k s))) =
              List.map_filter settled (trace s) @ ips"
    by (simp add: r run_loop_settled s1)
  show "List.map_filter failed_address (trace (snd (run w ips d k s))) =
              List.map_filter failed_address (trace s) @
              failed_of ips (address_outcomes w (make_headers (load_env w)) t m b c d k ips s1)"
    by (simp add: r run_loop_failed s1)
qed

text \<open>
  C8. For every address list and whatever happens to each address, a failure while fetching,
  transforming or persisting one address is caught in the loop of \<^verbatim>\<open>run\<close>, logged, and counted
  as a failure of that address only; the loop goes on to every remaining address. Only a
  configuration error and the failure to open the store at startup abort the batch. So: a
  setting that is not an integer is raised before any address is processed; a store that
  cannot be opened ends \<^verbatim>\<open>run\<close> with 2 before any address is processed; otherwise \<^verbatim>\<open>run\<close>
  returns a status and raises nothing, every address of the list is settled, once and in
  order, the addresses logged as failed are exactly those whose processing failed, and the
  status is 0 exactly when none failed. The processing of an address succeeds exactly when
  its fetch returns a payload, the transformation of that payload returns a Record and,
  unless it is a dry run, the write of that Record returns; and it leaves the state of the
  first of these three stages that raises, with the error line of that exception for that
  address, or else the state after the last stage with the printed Record or the status
  line.
\<close>

theorem run_settles_every_address:
  "(\<forall>ex. parse_settings (load_env w) = Inl ex \<longrightarrow> run w ips d k s = (Inl ex, s))
   \<and> (\<forall>t m b code s1.
        parse_settings (load_env w) = Inr (t, m, b) \<and>
        open_store w (load_env w) d s = (Inl code, s1) \<longrightarrow>
          run w ips d k s = (Inr 2, s1)
          \<and> List.map_filter settled (trace s1) = List.map_filter settled (trace s))
   \<and> (\<forall>t m b c s1.
        parse_settings (load_env w) = Inr (t, m, b) \<and>
        open_store w (load_env w) d s = (Inr c, s1) \<longrightarrow>
          fst (run w ips d k s) =
            Inr (if list_all id (address_outcomes w (make_headers (load_env w)) t m b c d k ips s1)
                 then 0 else 1)
          \<and> length (address_outcomes w (make_headers (load_env w)) t m b c d k ips s1) = length ips
          \<and> List.map_filter settled (trace (snd (run w ips d k s))) =
              List.map_filter settled (trace s) @ ips
          \<and> List.map_filter failed_address (trace (snd (run w ips d k s))) =
              List.map_filter failed_address (trace s) @
              failed_of ips (address_outcomes w (make_headers (load_env w)) t m b c d k ips s1))
   \<and> (\<forall>h t m b c ip s0.
        address_ok w h t m b c d k ip s0 \<longleftrightarrow>
          (\<exists>payload s1 doc s2.
             fetch_otx_general w ip h t m b s0 = (Inr payload, s1) \<and>
             transform w ip payload s1 = (Inr doc, s2) \<and>
             (d \<or> (\<exists>status s3. upsert_document w c doc k s2 = (Inr status, s3)))))
   \<and> (\<forall>h t m b c ip s0.
        after_address w h t m b c d k ip s0 =
          (case fetch_otx_general w ip h t m b s0 of
             (Inl e, s1) \<Rightarrow> emit (Error_failed ip e) s1
           | (Inr payload, s1) \<Rightarrow>
               (case transform w ip payload s1 of
                  (Inl e, s2) \<Rightarrow> emit (Error_failed ip e) s2
                | (Inr doc, s2) \<Rightarrow>
                    if d then emit (Print_doc doc) s2
                    else (case upsert_document w c doc k s2 of
                            (Inl e, s3) \<Rightarrow> emit (Error_failed ip e) s3
                          | (Inr status, s3) \<Rightarrow> emit (Info_status ip status) s3))))"
proof -
  note batch = run_batch[of w ips d k s]
  have ok: "\<forall>h t m b c ip s0.
        address_ok w h t m b c d k ip s0 \<longleftrightarrow>
          (\<exists>payload s1 doc s2.
             fetch_otx_general w ip h t m b s0 = (Inr payload, s1) \<and>
             transform w ip payload s1 = (Inr doc, s2) \<and>
             (d \<or> (\<exists>status s3. upsert_document w c doc k s2 = (Inr status, s3))))"
    by (intro allI) (rule address_ok_stages)
  have after: "\<forall>h t m b c ip s0.
        after_address w h t m b c d k ip s0 =
          (case fetch_otx_general w ip h t m b s0 of
             (Inl e, s1) \<Rightarrow> emit (Error_failed ip e) s1
           | (Inr payload, s1) \<Rightarrow>
               (case transform w ip payload s1 of
                  (Inl e, s2) \<Rightarrow> emit (Error_failed ip e) s2
                | (Inr doc, s2) \<Rightarrow>
                    if d then emit (Print_doc doc) s2
                    else (case upsert_document w c doc k s2 of
                            (Inl e, s3) \<Rightarrow> emit (Error_failed ip e) s3
                          | (Inr status, s3) \<Rightarrow> emit (Info_status ip status) s3)))"
    by (intro allI) (rule after_address_stages)
  show ?thesis
    by (intro conjI)
       (rule batch[THEN conjunct1] batch[THEN conjunct2, THEN conjunct1]
             batch[THEN conjunct2, THEN conjunct2] ok after)+
qed

theorem run_settles_every_address_witness:
  "parse_settings (load_env (world_with example_responses)) = Inr (20, 3, 2)
   \<and> open_store (world_with example_responses) (load_env (world_with example_responses)) False initial =
       (Inr (Some (Collection ''otx'' ''otx_ipv4_raw'')), example_startup)
   \<and> fst (run (world_with example_responses) [''8.8.8.8'', ''1.1.1.1''] False (Some ''indicator'') initial)
       = Inr 1
   \<and> List.map_filter settled
       (trace (snd (run (world_with example_responses) [''8.8.8.8'', ''1.1.1.1''] False
                      (Some ''indicator'') initial))) = [''8.8.8.8'', ''1.1.1.1'']
   \<and> List.map_filter failed_address
       (trace (snd (run (world_with example_responses) [''8.8.8.8'', ''1.1.1.1''] False
                      (Some ''indicator'') initial))) = [''1.1.1.1'']"
  using run_settles_every_address
          [of "world_with example_responses" "[''8.8.8.8'', ''1.1.1.1'']" False "Some ''indicator''" initial]
        example_settings example_open_store example_outcomes
  by (simp add: failed_of_def initial_def map_filter_simps)

lemma run_dry_store_events:
  "filter is_store_event (trace (snd (run w ips True k s))) = filter is_store_event (trace s)"
proof (cases "parse_settings (load_env w)")
  case (Inl ex)
  then show ?thesis by (simp add: run_aborts_on_settings)
next
  case (Inr p)
  obtain t m b where p: "p = (t, m, b)" by (cases p) auto
  show ?thesis
    using run_loops[of w t m b True s None s ips k] Inr p
    by (simp add: open_store_dry run_loop_dry_store)
qed









text \<open>
  C5. The exit status of the process, for the address list the command line gives: 1 when
  the list is empty; 2 when the store cannot be reached at startup (not in a dry run, the
  settings being integers); once the store is open or in a dry run, 0 if every address
  succeeded and 1 if at least one failed, so in particular if at least one but not all
  failed. In a dry run the store is never contacted and the status is never 2.
\<close>

theorem exit_status_of_main:
  assumes "iter_ips_from_args (files w) (arg_ips a) (arg_ips_file a) = Inr ips"
  shows "(ips = [] \<longrightarrow> exit_status (fst (main w a s)) = 1)
   \<and> (\<forall>t m b ex.
        ips \<noteq> [] \<and> parse_settings (load_env w) = Inr (t, m, b) \<and>
        \<not> arg_dry_run a \<and> mongo_connect w = Some ex \<longrightarrow>
          exit_status (fst (main w a s)) = 2)
   \<and> (\<forall>t m b c s1.
        ips \<noteq> [] \<and> parse_settings (load_env w) = Inr (t, m, b) \<and>
        open_store w (load_env w) (arg_dry_run a) s = (Inr c, s1) \<longrightarrow>
          (list_all id (address_outcomes w (make_headers (load_env w)) t m b c (arg_dry_run a)
                          (Some (arg_upsert_key a)) ips s1) \<longrightarrow>
             exit_status (fst (main w a s)) = 0)
          \<and> (\<not> list_all id (address_outcomes w (make_headers (load_env w)) t m b c (arg_dry_run a)
                          (Some (arg_upsert_key a)) ips s1) \<longrightarrow>
             exit_status (fst (main w a s)) = 1))
   \<and> (arg_dry_run a \<longrightarrow>
        exit_status (fst (main w a s)) \<noteq> 2
        \<and> filter is_store_event (trace (snd (main w a s))) = filter is_store_event (trace s))"
proof (intro conjI allI impI)
  assume "ips = []"
  then show "exit_status (fst (main w a s)) = 1"
    using assms by (simp add: main_def exit_status_def)
next
  fix t m b ex
  assume h: "ips \<noteq> [] \<and> parse_settings (load_env w) = Inr (t, m, b) \<and>
        \<not> arg_dry_run a \<and> mongo_connect w = Some ex"
  obtain r s1 where o: "open_store w (load_env w) (arg_dry_run a) s = (r, s1)" by fastforce
  have "r = Inl 2" using open_store_unreachable[of "arg_dry_run a" w ex "load_env w" s] h o by simp
  then have "run w ips (arg_dry_run a) (Some (arg_upsert_key a)) s = (Inr 2, s1)"
    using run_aborts_on_store[of w t m b "arg_dry_run a" s 2 s1] h o by simp
  then show "exit_status (fst (main w a s)) = 2"
    using assms h by (simp add: main_def exit_status_def)
next
  fix t m b c s1
  assume h: "ips \<noteq> [] \<and> parse_settings (load_env w) = Inr (t, m, b) \<and>
        open_store w (load_env w) (arg_dry_run a) s = (Inr c, s1)"
  then have m: "main w a s = run w ips (arg_dry_run a) (Some (arg_upsert_key a)) s"
    using assms by (simp add: main_def)
  have r: "fst (run w ips (arg_dry_run a) (Some (arg_upsert_key a)) s) =
        Inr (if list_all id (address_outcomes w (make_headers (load_env w)) t m b c (arg_dry_run a)
                          (Some (arg_upsert_key a)) ips s1) then 0 else 1)"
    using run_loops[of w t m b "arg_dry_run a" s c s1 ips "Some (arg_upsert_key a)"] h by simp
  {
    assume "list_all id (address_outcomes w (make_headers (load_env w)) t m b c (arg_dry_run a)
                          (Some (arg_upsert_key a)) ips s1)"
    then show "exit_status (fst (main w a s)) = 0" by (simp add: m r exit_status_def)
  }
  {
    assume "\<not> list_all id (address_outcomes w (make_headers (load_env w)) t m b c (arg_dry_run a)
                          (Some (arg_upsert_key a)) ips s1)"
    then show "exit_status (fst (main w a s)) = 1" by (simp add: m r exit_status_def)
  }
next
  assume d: "arg_dry_run a"
  show "exit_status (fst (main w a s)) \<noteq> 2"
  proof (cases "ips = []")
    case True
    then show ?thesis using assms by (simp add: main_def exit_status_def)
  next
    case False
    then have m: "main w a s = run w ips True (Some (arg_upsert_key a)) s"
      using assms d by (simp add: main_def)
    show ?thesis
    proof (cases "parse_settings (load_env w)")
      case (Inl ex)
      then show ?thesis by (simp add: m run_aborts_on_settings exit_status_def)
    next
      case (Inr p)
      obtain t mr b where p: "p = (t, mr, b)" by (cases p) auto
      show ?thesis
        using run_loops[of w t mr b True s None s ips "Some (arg_upsert_key a)"] Inr p
        by (simp add: m open_store_dry exit_status_def)
    qed
  qed
  show "filter is_store_event (trace (snd (main w a s))) = filter is_store_event (trace s)"
  proof (cases "ips = []")
    case True
    then show ?thesis using assms by (simp add: main_def emit_def)
  next
    case False
    then have m: "main w a s = run w ips True (Some (arg_upsert_key a)) s"
      using assms d by (simp add: main_def)
    show ?thesis by (simp add: m run_dry_store_events)
  qed
qed

theorem exit_status_of_main_witness:
  "iter_ips_from_args (files (world_with example_responses)) (arg_ips (example_args False))
     (arg_ips_file (example_args False)) = Inr [''8.8.8.8'', ''1.1.1.1'']
   \<and> exit_status (fst (main (world_with example_responses) (example_args False) initial)) = 1
   \<and> exit_status (fst (main ((world_with example_responses)\<lparr>mongo_connect := Some (PyMongoError ''refused'')\<rparr>)
                          (example_args False) initial)) = 2
   \<and> exit_status (fst (main ((world_with example_responses)\<lparr>mongo_connect := Some (PyMongoError ''refused'')\<rparr>)
                          (example_args True) initial)) \<noteq> 2"
proof -
  let ?w = "world_with example_responses"
  let ?u = "?w\<lparr>mongo_connect := Some (PyMongoError ''refused'')\<rparr>"
  have ips_u: "iter_ips_from_args (files ?u) (arg_ips (example_args d))
     (arg_ips_file (example_args d)) = Inr [''8.8.8.8'', ''1.1.1.1'']" for d
    using example_ips[of d] by (simp add: world_with_def)
  have set_u: "parse_settings (load_env ?u) = Inr (20, 3, 2)"
    by code_simp
  have 1: "exit_status (fst (main ?w (example_args False) initial)) = 1"
    using exit_status_of_main[OF example_ips, of False initial]
          example_settings example_open_store example_outcomes
    by (simp add: example_args_def)
  have 2: "exit_status (fst (main ?u (example_args False) initial)) = 2"
    using exit_status_of_main[OF ips_u, of False initial] set_u
    by (simp add: example_args_def)
  have 3: "exit_status (fst (main ?u (example_args True) initial)) \<noteq> 2"
    using exit_status_of_main[OF ips_u, of True initial]
    by (simp add: example_args_def)
  show ?thesis using example_ips 1 2 3 by simp
qed

text \<open>
  C10. The claim: called directly with an empty address list, \<^verbatim>\<open>run\<close> processes no address and
  returns 0, and the status 1 for no addresses comes only from \<^verbatim>\<open>main\<close>. The startup of \<^verbatim>\<open>run\<close>
  comes before its loop, whatever the list: when it is not a dry run and the store cannot be
  opened, \<^verbatim>\<open>run\<close> returns 2 on the empty list too. What holds: past its startup (the settings
  are integers; the store is open, or it is a dry run) \<^verbatim>\<open>run\<close> on an empty list returns 0 in
  the state the startup left, so no address is processed; it never returns 1 on an empty
  list; and \<^verbatim>\<open>main\<close> on an empty list reports the usage error and returns 1 without calling
  \<^verbatim>\<open>run\<close>.
\<close>

theorem run_on_no_addresses:
  "(\<forall>t m b c s1.
      parse_settings (load_env w) = Inr (t, m, b) \<and>
      open_store w (load_env w) d s = (Inr c, s1) \<longrightarrow>
        run w [] d k s = (Inr 0, s1))
   \<and> (\<forall>t m b. parse_settings (load_env w) = Inr (t, m, b) \<longrightarrow> run w [] True k s = (Inr 0, s))
   \<and> fst (run w [] d k s) \<noteq> Inr 1
   \<and> (iter_ips_from_args (files w) (arg_ips a) (arg_ips_file a) = Inr [] \<longrightarrow>
        main w a s = (Inr 1, emit Error_no_ips s))"
proof (intro conjI allI impI)
  fix t m b c s1
  assume "parse_settings (load_env w) = Inr (t, m, b) \<and>
      open_store w (load_env w) d s = (Inr c, s1)"
  then show "run w [] d k s = (Inr 0, s1)"
    using run_loops[of w t m b d s c s1 "[]" k] by simp
next
  fix t m b assume "parse_settings (load_env w) = Inr (t, m, b)"
  then show "run w [] True k s = (Inr 0, s)"
    using run_loops[of w t m b True s None s "[]" k] by (simp add: open_store_dry)
next
  show "fst (run w [] d k s) \<noteq> Inr 1"
  proof (cases "parse_settings (load_env w)")
    case (Inl ex)
    then show ?thesis by (simp add: run_aborts_on_settings)
  next
    case (Inr p)
    obtain t m b where p: "p = (t, m, b)" by (cases p) auto
    obtain r s1 where o: "open_store w (load_env w) d s = (r, s1)" by fastforce
    show ?thesis
    proof (cases r)
      case (Inl code)
      then show ?thesis using run_aborts_on_store[of w t m b d s code s1 "[]" k] Inr p o by simp
    next
      case c: (Inr c)
      then show ?thesis using run_loops[of w t m b d s c s1 "[]" k] Inr p o by simp
    qed
  qed
next
  assume "iter_ips_from_args (files w) (arg_ips a) (arg_ips_file a) = Inr []"
  then show "main w a s = (Inr 1, emit Error_no_ips s)" by (simp add: main_def)
qed

theorem run_on_no_addresses_witness:
  "parse_settings (load_env (world_with example_responses)) = Inr (20, 3, 2)
   \<and> open_store (world_with example_responses) (load_env (world_with example_responses)) False initial =
       (Inr (Some (Collection ''otx'' ''otx_ipv4_raw'')), example_startup)
   \<and> run (world_with example_responses) [] False (Some ''indicator'') initial = (Inr 0, example_startup)
   \<and> run (world_with example_responses) [] True (Some ''indicator'') initial = (Inr 0, initial)
   \<and> iter_ips_from_args (files (world_with example_responses)) (Some '' , '') None = Inr []
   \<and> main (world_with example_responses)
        \<lparr>arg_ips = Some '' , '', arg_ips_file = None, arg_dry_run = False, arg_upsert_key = ''indicator''\<rparr>
        initial = (Inr 1, emit Error_no_ips initial)"
proof -
  have e: "iter_ips_from_args (files (world_with example_responses)) (Some '' , '') None = Inr []"
    by code_simp
  show ?thesis
    using run_on_no_addresses
            [of "world_with example_responses" False initial "Some ''indicator''"
                "\<lparr>arg_ips = Some '' , '', arg_ips_file = None, arg_dry_run = False, arg_upsert_key = ''indicator''\<rparr>"]
          run_on_no_addresses
            [of "world_with example_responses" True initial "Some ''indicator''"
                "\<lparr>arg_ips = Some '' , '', arg_ips_file = None, arg_dry_run = False, arg_upsert_key = ''indicator''\<rparr>"]
          example_settings example_open_store e
    by simp
qed

text \<open>
  C10 at a concrete input: the empty list with a store that refuses the connection, not in a
  dry run. \<^verbatim>\<open>run\<close> returns 2, not 0.
\<close>

theorem run_on_no_addresses_store_down:
  "fst (run ((world_with example_responses)\<lparr>mongo_connect := Some (PyMongoError ''refused'')\<rparr>)
          [] False (Some ''indicator'') initial) = Inr 2
   \<and> fst (run ((world_with example_responses)\<lparr>mongo_connect := Some (PyMongoError ''refused'')\<rparr>)
          [] False (Some ''indicator'') initial) \<noteq> Inr 0"
  by code_simp

end
